theory Spec2Isabelle
  imports Complex_Main
begin

section \<open>Python values and exceptions\<close>

text \<open>
  The exceptions that the methods of \<open>PandaPowerBackend\<close> raise or let through.
  \<open>BackendError\<close> is grid2op's own, \<open>LoadflowNotConverged\<close> is pandapower's;
  both carry their message.  The others are the numpy and pandas failures of an
  index that is out of range or of arrays whose shapes do not fit.
\<close>

datatype pyexc =
    BackendError string
  | LoadflowNotConverged string
  | IndexError
  | TypeError
  | KeyError
  | ValueError

text \<open>
  A double: a finite number, an infinity or NaN.  Only \<open>np.isfinite\<close> and
  \<open>isnull\<close> look inside; the arithmetic itself (rounding, overflow) is a parameter
  of the functions that compute, see \<open>fpu\<close> below.
\<close>

datatype pyfloat = Fin real | PosInf | NegInf | NaN

fun isfinite :: "pyfloat \<Rightarrow> bool" where
  "isfinite (Fin _) = True"
| "isfinite _ = False"

fun isnull :: "pyfloat \<Rightarrow> bool" where
  "isnull NaN = True"
| "isnull _ = False"

record fpu =
  fadd :: "pyfloat \<Rightarrow> pyfloat \<Rightarrow> pyfloat"
  fmul :: "pyfloat \<Rightarrow> pyfloat \<Rightarrow> pyfloat"
  fdiv :: "pyfloat \<Rightarrow> pyfloat \<Rightarrow> pyfloat"

section \<open>The bus resolver\<close>

text \<open>
  \<open>_pp_bus_from_grid2op_bus(self, grid2op_bus, grid2op_bus_init)\<close>.  The first
  argument of the model is the attribute \<open>self.__nb_bus_before\<close>, the number of
  rows of the bus table before it was doubled.  The initial bus tables hold bus
  numbers (as doubles, after \<open>cst_1 * ...\<close>), so the final \<open>int(res)\<close> is the
  identity on them.
\<close>

definition pp_bus_from_grid2op_bus :: "nat \<Rightarrow> int \<Rightarrow> int \<Rightarrow> pyexc + int" where
  "pp_bus_from_grid2op_bus nb grid2op_bus grid2op_bus_init =
     (if grid2op_bus = 1 then Inr grid2op_bus_init
      else if grid2op_bus = 2 then Inr (grid2op_bus_init + int nb)
      else if grid2op_bus = -1 then Inr (-1)
      else Inl (BackendError ''grid2op bus must be -1, 1 or 2''))"

section \<open>The solver's net\<close>

text \<open>
  The pandapower net \<open>self._grid\<close>: one list of rows per table, with the columns the
  backend reads or writes.  Every table other than the bus table keeps pandapower's
  default index, so a row's label is its position.  The bus table keeps its labels
  (\<open>bus_index\<close>), since \<open>load_grid\<close> shifts them.
\<close>

record bus_row =
  bus_index :: int
  bus_name :: string
  vn_kv :: pyfloat
  bus_type :: string
  zone :: string
  bus_in_service :: bool

record load_row =
  load_bus :: int
  load_p_mw :: pyfloat
  load_q_mvar :: pyfloat
  load_in_service :: bool

record gen_row =
  gen_bus :: int
  gen_p_mw :: pyfloat
  gen_vm_pu :: pyfloat
  gen_in_service :: bool

record line_row =
  from_bus :: int
  to_bus :: int
  line_in_service :: bool

record trafo_row =
  hv_bus :: int
  lv_bus :: int
  trafo_in_service :: bool

record shunt_row =
  shunt_bus :: int
  shunt_p_mw :: pyfloat
  shunt_q_mvar :: pyfloat
  shunt_in_service :: bool

record ext_grid_row =
  ext_bus :: int
  ext_vm_pu :: pyfloat
  ext_va_degree :: pyfloat

text \<open>The result tables a solve leaves in the net, and the parts of \<open>_ppc\<close> read here.\<close>

record res_gen_row =
  res_gen_p_mw :: pyfloat
  res_gen_q_mvar :: pyfloat
  res_gen_va_degree :: pyfloat
  res_gen_vm_pu :: pyfloat

record res_load_row =
  res_load_p_mw :: pyfloat
  res_load_q_mvar :: pyfloat

record res_line_row =
  p_from_mw :: pyfloat
  q_from_mvar :: pyfloat
  vm_from_pu :: pyfloat
  i_from_ka :: pyfloat
  p_to_mw :: pyfloat
  q_to_mvar :: pyfloat
  vm_to_pu :: pyfloat
  i_to_ka :: pyfloat

record res_trafo_row =
  p_hv_mw :: pyfloat
  q_hv_mvar :: pyfloat
  vm_hv_pu :: pyfloat
  i_hv_ka :: pyfloat
  p_lv_mw :: pyfloat
  q_lv_mvar :: pyfloat
  vm_lv_pu :: pyfloat
  i_lv_ka :: pyfloat

record res_shunt_row =
  res_shunt_p_mw :: pyfloat
  res_shunt_q_mvar :: pyfloat

text \<open>
  \<open>res_bus_vm_pu\<close> is the column \<open>res_bus["vm_pu"]\<close> with its labels.  \<open>ppc_et\<close> is
  \<open>_ppc["et"]\<close> when both keys exist, \<open>ppc_gen\<close> is the matrix \<open>_ppc["gen"]\<close>, and
  \<open>ppc_internal_gen\<close> is \<open>_ppc["internal"]["gen"]\<close> when \<open>"gen"\<close> is a key of
  \<open>_ppc["internal"]\<close>.
\<close>

record pp_results =
  res_gen :: "res_gen_row list"
  res_load :: "res_load_row list"
  res_bus_vm_pu :: "(int \<times> pyfloat) list"
  res_line :: "res_line_row list"
  res_trafo :: "res_trafo_row list"
  res_shunt :: "res_shunt_row list"
  ppc_et :: "pyfloat option"
  ppc_gen :: "pyfloat list list"
  ppc_internal_gen :: "pyfloat list list option"
  converged :: bool

text \<open>
  A call into the solver: \<open>pp.runpp(..., init=...)\<close> or \<open>pp.rundcpp(...)\<close>.  The
  field \<open>solver_calls\<close> of the net is not an attribute of the source: it is the trace
  of the calls the solver has received on this net, kept to state which calls a
  method makes.
\<close>

datatype pp_call = Runpp string | Rundcpp

record ppnet =
  bus :: "bus_row list"
  load :: "load_row list"
  gen :: "gen_row list"
  line :: "line_row list"
  trafo :: "trafo_row list"
  shunt :: "shunt_row list"
  ext_grid :: "ext_grid_row list"
  res :: pp_results
  solver_calls :: "pp_call list"

text \<open>
  The solver is outside the repository.  It is a parameter: a function that, for a
  call and the net it is given, says whether the call raises and which result tables
  the net holds afterwards.  It cannot touch the input tables.
\<close>

type_synonym solver = "pp_call \<Rightarrow> ppnet \<Rightarrow> pyexc option \<times> pp_results"

definition call_solver :: "solver \<Rightarrow> pp_call \<Rightarrow> ppnet \<Rightarrow> pyexc option \<times> ppnet" where
  "call_solver solve c g =
     (case solve c g of
        (e, r) \<Rightarrow> (e, g\<lparr>res := r, solver_calls := solver_calls g @ [c]\<rparr>))"

section \<open>The backend object\<close>

text \<open>
  The attributes that \<open>load_grid\<close> fills once and no other method assigns.
  \<open>priv_nb_bus_before\<close> is \<open>self.__nb_bus_before\<close> (the number of buses of the file)
  and \<open>priv_nb_powerline\<close> is \<open>self.__nb_powerline\<close>; the warm-start memory
  \<open>self._nb_bus_before\<close> is a different attribute, \<open>nb_bus_before\<close> below.  An entry
  \<open>(None, None, None)\<close> of \<open>_big_topo_to_backend\<close> is \<open>None\<close>.
\<close>

record static_tables =
  priv_nb_bus_before :: nat
  priv_nb_powerline :: nat
  number_true_line :: nat
  dim_topo :: nat
  n_load :: nat
  iref_slack :: "nat option"
  id_bus_added :: "nat option"
  init_bus_load :: "int list"
  init_bus_gen :: "int list"
  init_bus_lor :: "int list"
  init_bus_lex :: "int list"
  load_to_subid :: "int list"
  gen_to_subid :: "int list"
  line_or_to_subid :: "int list"
  line_ex_to_subid :: "int list"
  shunt_to_subid :: "int list"
  load_pos_topo_vect :: "nat list"
  gen_pos_topo_vect :: "nat list"
  line_or_pos_topo_vect :: "nat list"
  line_ex_pos_topo_vect :: "nat list"
  big_topo_to_backend :: "(nat \<times> nat \<times> nat) option list"
  prod_pu_to_kv :: "pyfloat list"
  load_pu_to_kv :: "pyfloat list"
  lines_or_pu_to_kv :: "pyfloat list"
  lines_ex_pu_to_kv :: "pyfloat list"

text \<open>The published vectors.\<close>

record outputs =
  p_or :: "pyfloat list"
  q_or :: "pyfloat list"
  v_or :: "pyfloat list"
  a_or :: "pyfloat list"
  p_ex :: "pyfloat list"
  q_ex :: "pyfloat list"
  v_ex :: "pyfloat list"
  a_ex :: "pyfloat list"
  prod_p :: "pyfloat list"
  prod_q :: "pyfloat list"
  prod_v :: "pyfloat list"
  load_p :: "pyfloat list"
  load_q :: "pyfloat list"
  load_v :: "pyfloat list"
  line_status :: "bool list"

record backend =
  grid :: ppnet
  tables :: static_tables
  out :: outputs
  pf_init :: string
  nb_bus_before :: "nat option"
  topo_vect :: "int list"
  comp_time :: pyfloat

section \<open>Statements that may raise\<close>

text \<open>
  A statement maps the state to the state it leaves and to the exception it raised,
  if any: what was written before the exception stays written.  A block runs its
  statements in order and stops at the first exception.
\<close>

type_synonym 's stmt = "'s \<Rightarrow> pyexc option \<times> 's"

fun run_stmts :: "'s stmt list \<Rightarrow> 's stmt" where
  "run_stmts [] s = (None, s)"
| "run_stmts (c # cs) s =
     (case c s of
        (Some e, s') \<Rightarrow> (Some e, s')
      | (None, s') \<Rightarrow> run_stmts cs s')"

text \<open>A statement that either completes or raises before it has written anything.\<close>

definition attempt :: "('s \<Rightarrow> pyexc + 's) \<Rightarrow> 's stmt" where
  "attempt f s = (case f s of Inl e \<Rightarrow> (Some e, s) | Inr s' \<Rightarrow> (None, s'))"

definition ebind :: "'e + 'a \<Rightarrow> ('a \<Rightarrow> 'e + 'b) \<Rightarrow> 'e + 'b" where
  "ebind m f = (case m of Inl e \<Rightarrow> Inl e | Inr a \<Rightarrow> f a)"

text \<open>\<open>xs[i]\<close> and \<open>xs[i] = v\<close> for an index that is a natural number.\<close>

definition nth_py :: "'a list \<Rightarrow> nat \<Rightarrow> pyexc + 'a" where
  "nth_py xs i = (if i < length xs then Inr (xs ! i) else Inl IndexError)"

definition set_py :: "'a list \<Rightarrow> nat \<Rightarrow> 'a \<Rightarrow> pyexc + 'a list" where
  "set_py xs i v = (if i < length xs then Inr (xs[i := v]) else Inl IndexError)"

text \<open>\<open>xs[k]\<close> read for its failure only; \<open>xs[None]\<close> is a view and never fails.\<close>

definition nth_py_opt :: "'a list \<Rightarrow> nat option \<Rightarrow> pyexc + unit" where
  "nth_py_opt xs k =
     (case k of None \<Rightarrow> Inr () | Some i \<Rightarrow> if i < length xs then Inr () else Inl IndexError)"

text \<open>
  \<open>col.loc[labels]\<close> on a labelled column: the values at the labels, in the order
  asked, and a \<open>KeyError\<close> when a label is missing.
\<close>

fun loc_py :: "(int \<times> 'a) list \<Rightarrow> int list \<Rightarrow> pyexc + 'a list" where
  "loc_py col [] = Inr []"
| "loc_py col (l # ls) =
     (case map_of col l of
        None \<Rightarrow> Inl KeyError
      | Some v \<Rightarrow> ebind (loc_py col ls) (\<lambda>vs. Inr (v # vs)))"

text \<open>
  Elementwise arithmetic of two arrays: the shapes agree, or one of them has a
  single element, which numpy broadcasts; otherwise a \<open>ValueError\<close>.
\<close>

definition ew :: "('a \<Rightarrow> 'a \<Rightarrow> 'a) \<Rightarrow> 'a list \<Rightarrow> 'a list \<Rightarrow> pyexc + 'a list" where
  "ew f xs ys =
     (if length xs = length ys then Inr (map2 f xs ys)
      else if length ys = 1 then Inr (map (\<lambda>x. f x (hd ys)) xs)
      else if length xs = 1 then Inr (map (\<lambda>y. f (hd xs) y) ys)
      else Inl ValueError)"

text \<open>\<open>dst[:] = src\<close>: the shapes agree, or \<open>src\<close> has one element and is broadcast.\<close>

definition assign_all :: "'a list \<Rightarrow> 'a list \<Rightarrow> pyexc + 'a list" where
  "assign_all dst src =
     (if length src = length dst then Inr src
      else if length src = 1 then Inr (replicate (length dst) (hd src))
      else Inl ValueError)"

text \<open>
  \<open>xs[mask]\<close> and \<open>xs[mask] = v\<close> for a boolean mask and a scalar \<open>v\<close>: the mask has
  the length of the array, or numpy raises an \<open>IndexError\<close>.
\<close>

definition take_mask :: "bool list \<Rightarrow> 'a list \<Rightarrow> pyexc + 'a list" where
  "take_mask msk xs =
     (if length msk = length xs then Inr (map snd (filter fst (zip msk xs)))
      else Inl IndexError)"

definition fill_mask :: "bool list \<Rightarrow> 'a \<Rightarrow> 'a list \<Rightarrow> pyexc + 'a list" where
  "fill_mask msk v xs =
     (if length msk = length xs then Inr (map2 (\<lambda>m x. if m then v else x) msk xs)
      else Inl IndexError)"

text \<open>\<open>for i, row in enumerate(rows)\<close>, counting from \<open>i\<close>, over an accumulator.\<close>

fun for_each :: "(nat \<Rightarrow> 'r \<Rightarrow> 'a \<Rightarrow> pyexc + 'a) \<Rightarrow> 'r list \<Rightarrow> nat \<Rightarrow> 'a \<Rightarrow> pyexc + 'a" where
  "for_each body [] i acc = Inr acc"
| "for_each body (r # rs) i acc =
     (case body i r acc of
        Inl e \<Rightarrow> Inl e
      | Inr acc' \<Rightarrow> for_each body rs (Suc i) acc')"

section \<open>Reading the state of the net\<close>

definition get_nb_active_bus :: "backend \<Rightarrow> nat" where
  "get_nb_active_bus b = length (filter bus_in_service (bus (grid b)))"

text \<open>
  \<open>_get_line_status\<close> reads the net; \<open>get_line_status\<close> returns the published
  vector \<open>self.line_status\<close>.
\<close>

definition get_line_status_net :: "backend \<Rightarrow> bool list" where
  "get_line_status_net b =
     map line_in_service (line (grid b)) @ map trafo_in_service (trafo (grid b))"

definition get_line_status :: "backend \<Rightarrow> bool list" where
  "get_line_status b = line_status (out b)"

text \<open>
  \<open>_get_topo_vect\<close>.  The vector starts as \<open>np.full(dim_topo, NaN, dtype=dt_int)\<close>:
  every slot holds what the cast of NaN to a 32-bit integer gives.  One step of the
  two branch loops writes the two ends of branch \<open>j\<close>; one step of the generator
  and load loops writes one slot.
\<close>

definition nan_as_int :: int where
  "nan_as_int = - 2147483648"

definition topo_branch :: "backend \<Rightarrow> bool list \<Rightarrow> nat \<Rightarrow> int \<times> int \<Rightarrow> int list \<Rightarrow> pyexc + int list" where
  "topo_branch b lstatus j row r =
     (case row of (bus_or_id, bus_ex_id) \<Rightarrow>
        ebind (nth_py lstatus j) (\<lambda>st.
          if st then
            ebind (nth_py (line_or_to_subid (tables b)) j) (\<lambda>sub_or.
            ebind (nth_py (line_or_pos_topo_vect (tables b)) j) (\<lambda>pos_or.
            ebind (set_py r pos_or (if bus_or_id = sub_or then 1 else 2)) (\<lambda>r1.
            ebind (nth_py (line_ex_to_subid (tables b)) j) (\<lambda>sub_ex.
            ebind (nth_py (line_ex_pos_topo_vect (tables b)) j) (\<lambda>pos_ex.
              set_py r1 pos_ex (if bus_ex_id = sub_ex then 1 else 2))))))
          else
            ebind (nth_py (line_or_pos_topo_vect (tables b)) j) (\<lambda>pos_or.
            ebind (set_py r pos_or (- 1)) (\<lambda>r1.
            ebind (nth_py (line_ex_pos_topo_vect (tables b)) j) (\<lambda>pos_ex.
              set_py r1 pos_ex (- 1))))))"

definition topo_inj :: "int list \<Rightarrow> nat list \<Rightarrow> nat \<Rightarrow> int \<Rightarrow> int list \<Rightarrow> pyexc + int list" where
  "topo_inj to_subid pos_topo_vect i bus_id r =
     ebind (nth_py to_subid i) (\<lambda>sub.
     ebind (nth_py pos_topo_vect i) (\<lambda>pos.
       set_py r pos (if bus_id = sub then 1 else 2)))"

definition get_topo_vect :: "backend \<Rightarrow> pyexc + int list" where
  "get_topo_vect b =
     (let g = grid b; t = tables b; lstatus = get_line_status b in
      ebind (for_each (topo_branch b lstatus)
               (map (\<lambda>r. (from_bus r, to_bus r)) (line g)) 0
               (replicate (dim_topo t) nan_as_int)) (\<lambda>r1.
      ebind (for_each (topo_branch b lstatus)
               (map (\<lambda>r. (hv_bus r, lv_bus r)) (trafo g)) (number_true_line t) r1) (\<lambda>r2.
      ebind (for_each (topo_inj (gen_to_subid t) (gen_pos_topo_vect t))
               (map gen_bus (gen g)) 0 r2) (\<lambda>r3.
      for_each (topo_inj (load_to_subid t) (load_pos_topo_vect t))
               (map load_bus (load g)) 0 r3))))"

text \<open>
  \<open>_gens_info\<close>, \<open>_loads_info\<close> and \<open>shunt_info\<close>.  The products with \<open>cst_1\<close>
  (the double 1.0) leave every double as it is.  \<open>add_at\<close> is \<open>xs[k] += v\<close>; with
  \<open>k = None\<close> numpy adds \<open>v\<close> to every entry.  \<open>mat_get\<close> is \<open>m[i, j]\<close>.
\<close>

definition add_at :: "fpu \<Rightarrow> pyfloat list \<Rightarrow> nat option \<Rightarrow> pyfloat \<Rightarrow> pyexc + pyfloat list" where
  "add_at fp xs k v =
     (case k of
        None \<Rightarrow> Inr (map (\<lambda>x. fadd fp x v) xs)
      | Some i \<Rightarrow> if i < length xs then Inr (xs[i := fadd fp (xs ! i) v]) else Inl IndexError)"

definition mat_get :: "'a list list \<Rightarrow> nat \<Rightarrow> nat \<Rightarrow> pyexc + 'a" where
  "mat_get m i j = ebind (nth_py m i) (\<lambda>row. nth_py row j)"

definition gens_info :: "fpu \<Rightarrow> backend \<Rightarrow> pyexc + (pyfloat list \<times> pyfloat list \<times> pyfloat list)" where
  "gens_info fp b =
     (let r = res (grid b); t = tables b;
          prod_p0 = map res_gen_p_mw (res_gen r);
          prod_q0 = map res_gen_q_mvar (res_gen r) in
      ebind (ew (fmul fp) (map res_gen_vm_pu (res_gen r)) (prod_pu_to_kv t)) (\<lambda>prod_v0.
        case iref_slack t of
          None \<Rightarrow> Inr (prod_p0, prod_q0, prod_v0)
        | Some iref \<Rightarrow>
            (case ppc_internal_gen r of
               None \<Rightarrow> Inr (prod_p0, prod_q0, prod_v0)
             | Some m \<Rightarrow>
                 ebind (nth_py_opt prod_p0 (id_bus_added t)) (\<lambda>_.
                 ebind (mat_get m iref 1) (\<lambda>p_ref.
                 ebind (add_at fp prod_p0 (id_bus_added t) p_ref) (\<lambda>prod_p1.
                 ebind (mat_get m iref 2) (\<lambda>q_ref.
                 ebind (add_at fp prod_q0 (id_bus_added t) q_ref) (\<lambda>prod_q1.
                   Inr (prod_p1, prod_q1, prod_v0)))))))))"

definition loads_info :: "fpu \<Rightarrow> backend \<Rightarrow> pyexc + (pyfloat list \<times> pyfloat list \<times> pyfloat list)" where
  "loads_info fp b =
     (let g = grid b; r = res g in
      ebind (loc_py (res_bus_vm_pu r) (map load_bus (load g))) (\<lambda>vm.
      ebind (ew (fmul fp) vm (load_pu_to_kv (tables b))) (\<lambda>load_v0.
        Inr (map res_load_p_mw (res_load r), map res_load_q_mvar (res_load r), load_v0))))"

definition shunt_info ::
  "fpu \<Rightarrow> backend \<Rightarrow> pyexc + (pyfloat list \<times> pyfloat list \<times> pyfloat list \<times> int list)" where
  "shunt_info fp b =
     (let g = grid b; r = res g; buses = map shunt_bus (shunt g) in
      ebind (loc_py (res_bus_vm_pu r) buses) (\<lambda>vm.
      ebind (loc_py (map (\<lambda>row. (bus_index row, vn_kv row)) (bus g)) buses) (\<lambda>vn.
      ebind (ew (fmul fp) vm vn) (\<lambda>shunt_v.
        Inr (map res_shunt_p_mw (res_shunt r), map res_shunt_q_mvar (res_shunt r), shunt_v,
             map (\<lambda>bus_id. if bus_id < int (priv_nb_bus_before (tables b)) then 1 else 0)
               buses)))))"

definition nan_like :: "pyfloat list \<Rightarrow> pyfloat list" where
  "nan_like xs = replicate (length xs) NaN"

definition reset_all_nan :: "backend \<Rightarrow> backend" where
  "reset_all_nan b =
     b\<lparr>out := (out b)\<lparr>
          p_or := nan_like (p_or (out b)), q_or := nan_like (q_or (out b)),
          v_or := nan_like (v_or (out b)), a_or := nan_like (a_or (out b)),
          p_ex := nan_like (p_ex (out b)), q_ex := nan_like (q_ex (out b)),
          v_ex := nan_like (v_ex (out b)), a_ex := nan_like (a_ex (out b)),
          prod_p := nan_like (prod_p (out b)), prod_q := nan_like (prod_q (out b)),
          prod_v := nan_like (prod_v (out b)), load_p := nan_like (load_p (out b)),
          load_q := nan_like (load_q (out b)), load_v := nan_like (load_v (out b))\<rparr>,
        nb_bus_before := None\<rparr>"

section \<open>The solve\<close>

text \<open>
  \<open>runpf\<close>, statement by statement.  The body of the \<open>try\<close> is \<open>runpf_try\<close>; the
  \<open>except\<close> clause and the two \<open>return\<close>s are in \<open>runpf\<close>.
\<close>

definition choose_pf_init :: "nat \<Rightarrow> nat option \<Rightarrow> string" where
  "choose_pf_init nb_bus remembered =
     (case remembered of
        None \<Rightarrow> ''dc''
      | Some n \<Rightarrow> if nb_bus = n then ''results'' else ''auto'')"

definition st_pf_init :: "nat \<Rightarrow> backend stmt" where
  "st_pf_init nb_bus b = (None, b\<lparr>pf_init := choose_pf_init nb_bus (nb_bus_before b)\<rparr>)"

definition st_isolated_load :: "backend stmt" where
  "st_isolated_load b =
     (if list_ex (\<lambda>r. \<not> load_in_service r) (load (grid b))
      then (Some (LoadflowNotConverged ''Isolated load''), b) else (None, b))"

definition st_isolated_gen :: "backend stmt" where
  "st_isolated_gen b =
     (if list_ex (\<lambda>r. \<not> gen_in_service r) (gen (grid b))
      then (Some (LoadflowNotConverged ''Isolated gen''), b) else (None, b))"

definition st_solve :: "solver \<Rightarrow> bool \<Rightarrow> backend stmt" where
  "st_solve solve is_dc b =
     (if is_dc then
        (case call_solver solve Rundcpp (grid b) of
           (Some e, g) \<Rightarrow> (Some e, b\<lparr>grid := g\<rparr>)
         | (None, g) \<Rightarrow> (None, b\<lparr>grid := g, nb_bus_before := None\<rparr>))
      else
        (case call_solver solve (Runpp (pf_init b)) (grid b) of
           (e, g) \<Rightarrow> (e, b\<lparr>grid := g\<rparr>)))"

definition st_comp_time :: "fpu \<Rightarrow> backend stmt" where
  "st_comp_time fp b =
     (case ppc_et (res (grid b)) of
        None \<Rightarrow> (None, b)
      | Some et \<Rightarrow> (None, b\<lparr>comp_time := fadd fp (comp_time b) et\<rparr>))"

definition st_res_gen_null :: "backend stmt" where
  "st_res_gen_null b =
     (if list_ex (\<lambda>r. isnull (res_gen_p_mw r) \<or> isnull (res_gen_q_mvar r)
                      \<or> isnull (res_gen_va_degree r) \<or> isnull (res_gen_vm_pu r))
           (res_gen (res (grid b)))
      then (Some (LoadflowNotConverged ''Isolated gen''), b) else (None, b))"

text \<open>
  An assignment to one published vector.  The right-hand side is computed from the
  state; the statement raises before it writes, or writes \<open>out\<close> only.
\<close>

definition set_out :: "(backend \<Rightarrow> pyexc + outputs) \<Rightarrow> backend stmt" where
  "set_out f = attempt (\<lambda>b. ebind (f b) (\<lambda>ov. Inr (b\<lparr>out := ov\<rparr>)))"

text \<open>
  \<open>self.prod_p[:], self.prod_q[:], self.prod_v[:] = self._gens_info()\<close>: the call
  first, then the three slices from left to right.  The call reads the net and the
  tables only, so each of the three statements below sees the same triple.  The same
  holds for the loads.
\<close>

definition st_prod_p :: "fpu \<Rightarrow> backend stmt" where
  "st_prod_p fp = set_out (\<lambda>b. ebind (gens_info fp b) (\<lambda>(p, q, v).
     ebind (assign_all (prod_p (out b)) p) (\<lambda>x. Inr ((out b)\<lparr>prod_p := x\<rparr>))))"

definition st_prod_q :: "fpu \<Rightarrow> backend stmt" where
  "st_prod_q fp = set_out (\<lambda>b. ebind (gens_info fp b) (\<lambda>(p, q, v).
     ebind (assign_all (prod_q (out b)) q) (\<lambda>x. Inr ((out b)\<lparr>prod_q := x\<rparr>))))"

definition st_prod_v :: "fpu \<Rightarrow> backend stmt" where
  "st_prod_v fp = set_out (\<lambda>b. ebind (gens_info fp b) (\<lambda>(p, q, v).
     ebind (assign_all (prod_v (out b)) v) (\<lambda>x. Inr ((out b)\<lparr>prod_v := x\<rparr>))))"

definition st_load_p :: "fpu \<Rightarrow> backend stmt" where
  "st_load_p fp = set_out (\<lambda>b. ebind (loads_info fp b) (\<lambda>(p, q, v).
     ebind (assign_all (load_p (out b)) p) (\<lambda>x. Inr ((out b)\<lparr>load_p := x\<rparr>))))"

definition st_load_q :: "fpu \<Rightarrow> backend stmt" where
  "st_load_q fp = set_out (\<lambda>b. ebind (loads_info fp b) (\<lambda>(p, q, v).
     ebind (assign_all (load_q (out b)) q) (\<lambda>x. Inr ((out b)\<lparr>load_q := x\<rparr>))))"

definition st_load_v :: "fpu \<Rightarrow> backend stmt" where
  "st_load_v fp = set_out (\<lambda>b. ebind (loads_info fp b) (\<lambda>(p, q, v).
     ebind (assign_all (load_v (out b)) v) (\<lambda>x. Inr ((out b)\<lparr>load_v := x\<rparr>))))"

definition st_load_v_finite :: "backend stmt" where
  "st_load_v_finite b =
     (if \<not> list_all isfinite (load_v (out b))
      then (Some (LoadflowNotConverged ''Isolated load''), b) else (None, b))"

text \<open>
  The direct-current branch: \<open>load_v\<close> becomes \<open>load_pu_to_kv\<close>, then every load that
  sits at the substation of a generator takes the voltage of the first such generator
  whose entry of the (not yet refreshed) topology vector agrees.  The source reads
  \<open>load_pos_topo_vect\<close> for the generator as well.
\<close>

definition st_dc_load_v :: "backend stmt" where
  "st_dc_load_v = set_out (\<lambda>b.
     ebind (assign_all (load_v (out b)) (load_pu_to_kv (tables b)))
       (\<lambda>x. Inr ((out b)\<lparr>load_v := x\<rparr>)))"

definition dc_match :: "backend \<Rightarrow> nat \<Rightarrow> nat \<Rightarrow> pyexc + bool" where
  "dc_match b l_id g_id =
     ebind (nth_py (load_pos_topo_vect (tables b)) l_id) (\<lambda>pos_l.
     ebind (nth_py (topo_vect b) pos_l) (\<lambda>tl.
     ebind (nth_py (load_pos_topo_vect (tables b)) g_id) (\<lambda>pos_g.
     ebind (nth_py (topo_vect b) pos_g) (\<lambda>tg. Inr (tl = tg)))))"

fun dc_find_gen :: "backend \<Rightarrow> nat \<Rightarrow> nat list \<Rightarrow> pyexc + nat option" where
  "dc_find_gen b l_id [] = Inr None"
| "dc_find_gen b l_id (g_id # ind_gens) =
     (case dc_match b l_id g_id of
        Inl e \<Rightarrow> Inl e
      | Inr True \<Rightarrow> Inr (Some g_id)
      | Inr False \<Rightarrow> dc_find_gen b l_id ind_gens)"

definition st_dc_fix_load :: "nat \<Rightarrow> backend stmt" where
  "st_dc_fix_load l_id = set_out (\<lambda>b.
     ebind (nth_py (load_to_subid (tables b)) l_id) (\<lambda>sub.
       if sub \<in> set (gen_to_subid (tables b)) then
         ebind (dc_find_gen b l_id
                  (filter (\<lambda>g. gen_to_subid (tables b) ! g = sub)
                     [0..<length (gen_to_subid (tables b))])) (\<lambda>found.
           case found of
             None \<Rightarrow> Inr (out b)
           | Some g_id \<Rightarrow>
               ebind (nth_py (prod_v (out b)) g_id) (\<lambda>v.
               ebind (set_py (load_v (out b)) l_id v) (\<lambda>x. Inr ((out b)\<lparr>load_v := x\<rparr>))))
       else Inr (out b)))"

definition st_dc_fix_loads :: "backend stmt" where
  "st_dc_fix_loads b = run_stmts (map st_dc_fix_load [0..<n_load (tables b)]) b"

definition st_line_status :: "backend stmt" where
  "st_line_status = set_out (\<lambda>b.
     ebind (assign_all (line_status (out b)) (get_line_status_net b))
       (\<lambda>x. Inr ((out b)\<lparr>line_status := x\<rparr>)))"

text \<open>\<open>_aux_get_line_info\<close>: a column of the lines' results, then one of the transformers'.\<close>

definition aux_get_line_info ::
  "(res_line_row \<Rightarrow> pyfloat) \<Rightarrow> (res_trafo_row \<Rightarrow> pyfloat) \<Rightarrow> backend \<Rightarrow> pyfloat list" where
  "aux_get_line_info colname1 colname2 b =
     map colname1 (res_line (res (grid b))) @ map colname2 (res_trafo (res (grid b)))"

definition zero_nonfinite :: "pyfloat list \<Rightarrow> pyfloat list" where
  "zero_nonfinite xs = map (\<lambda>x. if isfinite x then x else Fin 0) xs"

definition times_1000 :: "fpu \<Rightarrow> pyfloat list \<Rightarrow> pyfloat list" where
  "times_1000 fp xs = map (\<lambda>x. fmul fp x (Fin 1000)) xs"

definition st_flows_or :: "fpu \<Rightarrow> backend stmt" where
  "st_flows_or fp = run_stmts
     [set_out (\<lambda>b. ebind (assign_all (p_or (out b)) (aux_get_line_info p_from_mw p_hv_mw b))
        (\<lambda>x. Inr ((out b)\<lparr>p_or := x\<rparr>))),
      set_out (\<lambda>b. ebind (assign_all (q_or (out b)) (aux_get_line_info q_from_mvar q_hv_mvar b))
        (\<lambda>x. Inr ((out b)\<lparr>q_or := x\<rparr>))),
      set_out (\<lambda>b. ebind (assign_all (v_or (out b)) (aux_get_line_info vm_from_pu vm_hv_pu b))
        (\<lambda>x. Inr ((out b)\<lparr>v_or := x\<rparr>))),
      set_out (\<lambda>b. ebind (assign_all (a_or (out b))
                              (times_1000 fp (aux_get_line_info i_from_ka i_hv_ka b)))
        (\<lambda>x. Inr ((out b)\<lparr>a_or := x\<rparr>))),
      set_out (\<lambda>b. Inr ((out b)\<lparr>a_or := zero_nonfinite (a_or (out b))\<rparr>)),
      set_out (\<lambda>b. Inr ((out b)\<lparr>v_or := zero_nonfinite (v_or (out b))\<rparr>))]"

definition st_flows_ex :: "fpu \<Rightarrow> backend stmt" where
  "st_flows_ex fp = run_stmts
     [set_out (\<lambda>b. ebind (assign_all (p_ex (out b)) (aux_get_line_info p_to_mw p_lv_mw b))
        (\<lambda>x. Inr ((out b)\<lparr>p_ex := x\<rparr>))),
      set_out (\<lambda>b. ebind (assign_all (q_ex (out b)) (aux_get_line_info q_to_mvar q_lv_mvar b))
        (\<lambda>x. Inr ((out b)\<lparr>q_ex := x\<rparr>))),
      set_out (\<lambda>b. ebind (assign_all (v_ex (out b)) (aux_get_line_info vm_to_pu vm_lv_pu b))
        (\<lambda>x. Inr ((out b)\<lparr>v_ex := x\<rparr>))),
      set_out (\<lambda>b. ebind (assign_all (a_ex (out b))
                              (times_1000 fp (aux_get_line_info i_to_ka i_lv_ka b)))
        (\<lambda>x. Inr ((out b)\<lparr>a_ex := x\<rparr>))),
      set_out (\<lambda>b. Inr ((out b)\<lparr>a_ex := zero_nonfinite (a_ex (out b))\<rparr>)),
      set_out (\<lambda>b. Inr ((out b)\<lparr>v_ex := zero_nonfinite (v_ex (out b))\<rparr>))]"

text \<open>
  The voltage of a disconnected branch is forced to zero, then both voltage vectors
  are scaled in place.
\<close>

definition st_voltages :: "fpu \<Rightarrow> backend stmt" where
  "st_voltages fp = run_stmts
     [set_out (\<lambda>b. ebind (fill_mask (map Not (line_status (out b))) (Fin 0) (v_or (out b)))
        (\<lambda>x. Inr ((out b)\<lparr>v_or := x\<rparr>))),
      set_out (\<lambda>b. ebind (fill_mask (map Not (line_status (out b))) (Fin 0) (v_ex (out b)))
        (\<lambda>x. Inr ((out b)\<lparr>v_ex := x\<rparr>))),
      set_out (\<lambda>b. ebind (ew (fmul fp) (v_or (out b)) (lines_or_pu_to_kv (tables b))) (\<lambda>y.
        ebind (assign_all (v_or (out b)) y) (\<lambda>x. Inr ((out b)\<lparr>v_or := x\<rparr>)))),
      set_out (\<lambda>b. ebind (ew (fmul fp) (v_ex (out b)) (lines_ex_pu_to_kv (tables b))) (\<lambda>y.
        ebind (assign_all (v_ex (out b)) y) (\<lambda>x. Inr ((out b)\<lparr>v_ex := x\<rparr>))))]"

definition st_forget_nb_bus :: "backend stmt" where
  "st_forget_nb_bus b = (None, b\<lparr>nb_bus_before := None\<rparr>)"

text \<open>
  \<open>self._grid._ppc["gen"][self._iref_slack, 1] = 0.\<close>  With \<open>_iref_slack = None\<close> the
  index \<open>[None, 1]\<close> selects row 1 of the matrix, and the whole row is zeroed.
\<close>

definition ppc_gen_zero :: "pyfloat list list \<Rightarrow> nat option \<Rightarrow> pyexc + pyfloat list list" where
  "ppc_gen_zero m iref =
     (case iref of
        Some k \<Rightarrow>
          ebind (nth_py m k) (\<lambda>row.
          ebind (set_py row 1 (Fin 0)) (\<lambda>row'. set_py m k row'))
      | None \<Rightarrow>
          ebind (nth_py m 1) (\<lambda>row. set_py m 1 (map (\<lambda>_. Fin 0) row)))"

definition st_ppc_gen :: "backend stmt" where
  "st_ppc_gen = attempt (\<lambda>b.
     ebind (ppc_gen_zero (ppc_gen (res (grid b))) (iref_slack (tables b))) (\<lambda>m.
       Inr (b\<lparr>grid := (grid b)\<lparr>res := (res (grid b))\<lparr>ppc_gen := m\<rparr>\<rparr>\<rparr>)))"

definition st_topo_vect :: "backend stmt" where
  "st_topo_vect = attempt (\<lambda>b.
     ebind (get_topo_vect b) (\<lambda>tv.
     ebind (assign_all (topo_vect b) tv) (\<lambda>x. Inr (b\<lparr>topo_vect := x\<rparr>))))"

definition runpf_try :: "fpu \<Rightarrow> solver \<Rightarrow> bool \<Rightarrow> backend stmt" where
  "runpf_try fp solve is_dc b =
     run_stmts
       ([st_pf_init (get_nb_active_bus b),
         st_isolated_load,
         st_isolated_gen,
         st_solve solve is_dc,
         st_comp_time fp,
         st_res_gen_null,
         st_prod_p fp, st_prod_q fp, st_prod_v fp,
         st_load_p fp, st_load_q fp, st_load_v fp]
        @ (if \<not> is_dc then [st_load_v_finite] else [st_dc_load_v, st_dc_fix_loads])
        @ [st_line_status,
           st_flows_or fp,
           st_flows_ex fp,
           st_voltages fp,
           st_forget_nb_bus,
           st_ppc_gen,
           st_topo_vect]) b"

text \<open>
  The method returns \<open>self._grid.converged\<close> at the end of the \<open>try\<close>; a
  \<open>LoadflowNotConverged\<close> from anywhere in the \<open>try\<close> is caught, the published
  vectors are reset and the method returns \<open>False\<close>; any other exception leaves the
  method.
\<close>

definition runpf :: "fpu \<Rightarrow> solver \<Rightarrow> bool \<Rightarrow> backend \<Rightarrow> (pyexc + bool) \<times> backend" where
  "runpf fp solve is_dc b =
     (case runpf_try fp solve is_dc b of
        (None, b') \<Rightarrow> (Inr (converged (res (grid b'))), b')
      | (Some (LoadflowNotConverged msg), b') \<Rightarrow> (Inr False, reset_all_nan b')
      | (Some e, b') \<Rightarrow> (Inl e, b'))"

text \<open>
  A vector is unknown when each of its entries is NaN.  The outputs are unknown when
  each of the fourteen vectors that \<open>generators_info\<close>, \<open>loads_info\<close>,
  \<open>lines_or_info\<close> and \<open>lines_ex_info\<close> publish is.
\<close>

definition all_nan :: "pyfloat list \<Rightarrow> bool" where
  "all_nan xs = list_all isnull xs"

definition outputs_unknown :: "backend \<Rightarrow> bool" where
  "outputs_unknown b =
     (all_nan (p_or (out b)) \<and> all_nan (q_or (out b)) \<and> all_nan (v_or (out b))
      \<and> all_nan (a_or (out b)) \<and> all_nan (p_ex (out b)) \<and> all_nan (q_ex (out b))
      \<and> all_nan (v_ex (out b)) \<and> all_nan (a_ex (out b)) \<and> all_nan (prod_p (out b))
      \<and> all_nan (prod_q (out b)) \<and> all_nan (prod_v (out b)) \<and> all_nan (load_p (out b))
      \<and> all_nan (load_q (out b)) \<and> all_nan (load_v (out b)))"


section \<open>Applying an action\<close>

text \<open>
  What \<open>backendAction()\<close> yields: the in-service matrix of the buses, the four
  injection vectors, the topology changes as pairs (slot, selector), and the three
  shunt vectors.  A vector comes with its mask \<open>changed\<close>.
\<close>

record 'a value_store =
  changed :: "bool list"
  vals :: "'a list"

record backend_action =
  active_bus :: "(bool \<times> bool) list"
  act_prod_p :: "pyfloat value_store"
  act_prod_v :: "pyfloat value_store"
  act_load_p :: "pyfloat value_store"
  act_load_q :: "pyfloat value_store"
  topo :: "(nat \<times> int) list"
  act_shunt_p :: "pyfloat value_store"
  act_shunt_q :: "pyfloat value_store"
  act_shunt_bus :: "int value_store"

text \<open>
  \<open>if np.any(x.changed): col.iloc[x.changed] = x.values[x.changed]\<close>: the new column.
  Both masked accesses need a mask of the right length.
\<close>

definition set_changed :: "'a value_store \<Rightarrow> 'a list \<Rightarrow> pyexc + 'a list" where
  "set_changed x col =
     (if list_ex (\<lambda>c. c) (changed x) then
        ebind (take_mask (changed x) (vals x)) (\<lambda>_.
          if length (changed x) = length col
          then Inr (map (\<lambda>(c, v, old). if c then v else old) (zip (changed x) (zip (vals x) col)))
          else Inl IndexError)
      else Inr col)"

definition st_act_prod_p :: "backend_action \<Rightarrow> ppnet stmt" where
  "st_act_prod_p a = attempt (\<lambda>g.
     ebind (set_changed (act_prod_p a) (map gen_p_mw (gen g))) (\<lambda>col.
       Inr (g\<lparr>gen := map2 (\<lambda>r v. r\<lparr>gen_p_mw := v\<rparr>) (gen g) col\<rparr>)))"

text \<open>The voltage setpoints are divided by \<open>prod_pu_to_kv\<close>, entry by entry, before they are written.\<close>

definition st_act_prod_v :: "fpu \<Rightarrow> static_tables \<Rightarrow> backend_action \<Rightarrow> ppnet stmt" where
  "st_act_prod_v fp t a = attempt (\<lambda>g.
     if list_ex (\<lambda>c. c) (changed (act_prod_v a)) then
       ebind (take_mask (changed (act_prod_v a)) (vals (act_prod_v a))) (\<lambda>_.
       ebind (take_mask (changed (act_prod_v a)) (prod_pu_to_kv t)) (\<lambda>_.
         if length (changed (act_prod_v a)) = length (gen g)
         then Inr (g\<lparr>gen := map (\<lambda>(r, c, v, k). if c then r\<lparr>gen_vm_pu := fdiv fp v k\<rparr> else r)
                        (zip (gen g) (zip (changed (act_prod_v a))
                           (zip (vals (act_prod_v a)) (prod_pu_to_kv t))))\<rparr>)
         else Inl IndexError))
     else Inr g)"

text \<open>
  When the voltage of the added slack generator changed, the whole column
  \<open>ext_grid["vm_pu"]\<close> takes the generator's new setpoint.
\<close>

definition st_act_slack_v :: "static_tables \<Rightarrow> backend_action \<Rightarrow> ppnet stmt" where
  "st_act_slack_v t a = attempt (\<lambda>g.
     case id_bus_added t of
       None \<Rightarrow> Inr g
     | Some k \<Rightarrow>
         ebind (nth_py (changed (act_prod_v a)) k) (\<lambda>c.
           if c then
             (if k < length (gen g)
              then Inr (g\<lparr>ext_grid := map (\<lambda>r. r\<lparr>ext_vm_pu := gen_vm_pu (gen g ! k)\<rparr>) (ext_grid g)\<rparr>)
              else Inl KeyError)
           else Inr g))"

definition st_act_load_p :: "backend_action \<Rightarrow> ppnet stmt" where
  "st_act_load_p a = attempt (\<lambda>g.
     ebind (set_changed (act_load_p a) (map load_p_mw (load g))) (\<lambda>col.
       Inr (g\<lparr>load := map2 (\<lambda>r v. r\<lparr>load_p_mw := v\<rparr>) (load g) col\<rparr>)))"

definition st_act_load_q :: "backend_action \<Rightarrow> ppnet stmt" where
  "st_act_load_q a = attempt (\<lambda>g.
     ebind (set_changed (act_load_q a) (map load_q_mvar (load g))) (\<lambda>col.
       Inr (g\<lparr>load := map2 (\<lambda>r v. r\<lparr>load_q_mvar := v\<rparr>) (load g) col\<rparr>)))"

definition st_act_shunt_p :: "backend_action \<Rightarrow> ppnet stmt" where
  "st_act_shunt_p a = attempt (\<lambda>g.
     ebind (set_changed (act_shunt_p a) (map shunt_p_mw (shunt g))) (\<lambda>col.
       Inr (g\<lparr>shunt := map2 (\<lambda>r v. r\<lparr>shunt_p_mw := v\<rparr>) (shunt g) col\<rparr>)))"

definition st_act_shunt_q :: "backend_action \<Rightarrow> ppnet stmt" where
  "st_act_shunt_q a = attempt (\<lambda>g.
     ebind (set_changed (act_shunt_q a) (map shunt_q_mvar (shunt g))) (\<lambda>col.
       Inr (g\<lparr>shunt := map2 (\<lambda>r v. r\<lparr>shunt_q_mvar := v\<rparr>) (shunt g) col\<rparr>)))"

text \<open>
  The bus of the shunts.  The in-service flag of a changed shunt is
  \<open>selector != -1\<close>.  The rows that move are selected by
  \<open>shunt_bus.changed & shunt_bus.values == 1\<close> (and \<open>== 2\<close>), which Python reads as
  \<open>(changed & values) == 1\<close>: the bitwise and of the mask with the selectors,
  compared with 1.  The length of the vector, \<open>len(shunt_bus)\<close>, is taken to be the
  length of its values.
\<close>

definition sh_rows :: "int value_store \<Rightarrow> int \<Rightarrow> nat list" where
  "sh_rows x k =
     filter (\<lambda>i. and (of_bool (changed x ! i)) (vals x ! i) = k) [0..<length (vals x)]"

definition shunt_set_bus :: "nat list \<Rightarrow> int list \<Rightarrow> int \<Rightarrow> shunt_row list \<Rightarrow> pyexc + shunt_row list" where
  "shunt_set_bus sel subid off rows =
     (if sel = [] then Inr rows
      else if \<not> list_all (\<lambda>i. i < length subid) sel then Inl IndexError
      else if \<not> list_all (\<lambda>i. i < length rows) sel then Inl KeyError
      else Inr (map (\<lambda>(i, r). if i \<in> set sel then r\<lparr>shunt_bus := subid ! i + off\<rparr> else r)
                  (enumerate 0 rows)))"

definition st_act_shunt_bus :: "static_tables \<Rightarrow> backend_action \<Rightarrow> ppnet stmt" where
  "st_act_shunt_bus t a =
     (if list_ex (\<lambda>c. c) (changed (act_shunt_bus a)) then
        run_stmts
          [attempt (\<lambda>g.
             ebind (take_mask (changed (act_shunt_bus a)) (vals (act_shunt_bus a))) (\<lambda>_.
               if length (changed (act_shunt_bus a)) = length (shunt g)
               then Inr (g\<lparr>shunt := map (\<lambda>(r, c, v). if c then r\<lparr>shunt_in_service := (v \<noteq> - 1)\<rparr> else r)
                              (zip (shunt g) (zip (changed (act_shunt_bus a)) (vals (act_shunt_bus a))))\<rparr>)
               else Inl IndexError)),
           attempt (\<lambda>g.
             ebind (shunt_set_bus (sh_rows (act_shunt_bus a) 1) (shunt_to_subid t) 0 (shunt g))
               (\<lambda>rows. Inr (g\<lparr>shunt := rows\<rparr>))),
           attempt (\<lambda>g.
             ebind (shunt_set_bus (sh_rows (act_shunt_bus a) 2) (shunt_to_subid t)
                      (int (priv_nb_bus_before t)) (shunt g))
               (\<lambda>rows. Inr (g\<lparr>shunt := rows\<rparr>)))]
      else (\<lambda>g. (None, g)))"

text \<open>
  The six row mutators of \<open>_type_to_bus_set\<close>.  Each reads the element's initial bus,
  resolves the selector, and only then writes.  \<open>resolve\<close> is the first line that the
  six share.
\<close>

definition resolve :: "static_tables \<Rightarrow> int \<Rightarrow> int list \<Rightarrow> nat \<Rightarrow> pyexc + int" where
  "resolve t new_bus init_bus id_el_backend =
     ebind (nth_py init_bus id_el_backend)
       (pp_bus_from_grid2op_bus (priv_nb_bus_before t) new_bus)"

definition apply_load_bus :: "static_tables \<Rightarrow> int \<Rightarrow> nat \<Rightarrow> nat \<Rightarrow> ppnet stmt" where
  "apply_load_bus t new_bus id_el_backend id_topo = attempt (\<lambda>g.
     ebind (resolve t new_bus (init_bus_load t) id_el_backend) (\<lambda>new_bus_backend.
     ebind (nth_py (load g) id_el_backend) (\<lambda>row.
       if new_bus_backend \<ge> 0
       then Inr (g\<lparr>load := (load g)[id_el_backend :=
                   row\<lparr>load_bus := new_bus_backend, load_in_service := True\<rparr>]\<rparr>)
       else Inr (g\<lparr>load := (load g)[id_el_backend :=
                   row\<lparr>load_in_service := False, load_bus := - 1\<rparr>]\<rparr>))))"

text \<open>
  The generator mutator also moves the external grid when the generator is the last
  row and a slack generator was added at load time; that write comes after the row
  of the generator is written.
\<close>

definition apply_gen_bus :: "static_tables \<Rightarrow> int \<Rightarrow> nat \<Rightarrow> nat \<Rightarrow> ppnet stmt" where
  "apply_gen_bus t new_bus id_el_backend id_topo g =
     (case resolve t new_bus (init_bus_gen t) id_el_backend of
        Inl e \<Rightarrow> (Some e, g)
      | Inr new_bus_backend \<Rightarrow>
          (case nth_py (gen g) id_el_backend of
             Inl e \<Rightarrow> (Some e, g)
           | Inr row \<Rightarrow>
               if new_bus_backend \<ge> 0 then
                 (let g1 = g\<lparr>gen := (gen g)[id_el_backend :=
                             row\<lparr>gen_bus := new_bus_backend, gen_in_service := True\<rparr>]\<rparr> in
                  if int id_el_backend = int (length (gen g)) - 1 \<and> iref_slack t \<noteq> None then
                    (case ext_grid g1 of
                       [] \<Rightarrow> (Some IndexError, g1)
                     | r # rs \<Rightarrow> (None, g1\<lparr>ext_grid := r\<lparr>ext_bus := new_bus_backend\<rparr> # rs\<rparr>))
                  else (None, g1))
               else
                 (None, g\<lparr>gen := (gen g)[id_el_backend :=
                            row\<lparr>gen_in_service := False, gen_bus := - 1\<rparr>]\<rparr>)))"

definition change_bus_powerline_or :: "nat \<Rightarrow> int \<Rightarrow> ppnet stmt" where
  "change_bus_powerline_or id_powerline_backend new_bus_backend = attempt (\<lambda>g.
     ebind (nth_py (line g) id_powerline_backend) (\<lambda>row.
       if new_bus_backend \<ge> 0
       then Inr (g\<lparr>line := (line g)[id_powerline_backend :=
                   row\<lparr>line_in_service := True, from_bus := new_bus_backend\<rparr>]\<rparr>)
       else Inr (g\<lparr>line := (line g)[id_powerline_backend := row\<lparr>line_in_service := False\<rparr>]\<rparr>)))"

definition change_bus_powerline_ex :: "nat \<Rightarrow> int \<Rightarrow> ppnet stmt" where
  "change_bus_powerline_ex id_powerline_backend new_bus_backend = attempt (\<lambda>g.
     ebind (nth_py (line g) id_powerline_backend) (\<lambda>row.
       if new_bus_backend \<ge> 0
       then Inr (g\<lparr>line := (line g)[id_powerline_backend :=
                   row\<lparr>line_in_service := True, to_bus := new_bus_backend\<rparr>]\<rparr>)
       else Inr (g\<lparr>line := (line g)[id_powerline_backend := row\<lparr>line_in_service := False\<rparr>]\<rparr>)))"

definition change_bus_trafo_hv :: "nat \<Rightarrow> int \<Rightarrow> ppnet stmt" where
  "change_bus_trafo_hv id_powerline_backend new_bus_backend = attempt (\<lambda>g.
     ebind (nth_py (trafo g) id_powerline_backend) (\<lambda>row.
       if new_bus_backend \<ge> 0
       then Inr (g\<lparr>trafo := (trafo g)[id_powerline_backend :=
                   row\<lparr>trafo_in_service := True, hv_bus := new_bus_backend\<rparr>]\<rparr>)
       else Inr (g\<lparr>trafo := (trafo g)[id_powerline_backend := row\<lparr>trafo_in_service := False\<rparr>]\<rparr>)))"

definition change_bus_trafo_lv :: "nat \<Rightarrow> int \<Rightarrow> ppnet stmt" where
  "change_bus_trafo_lv id_powerline_backend new_bus_backend = attempt (\<lambda>g.
     ebind (nth_py (trafo g) id_powerline_backend) (\<lambda>row.
       if new_bus_backend \<ge> 0
       then Inr (g\<lparr>trafo := (trafo g)[id_powerline_backend :=
                   row\<lparr>trafo_in_service := True, lv_bus := new_bus_backend\<rparr>]\<rparr>)
       else Inr (g\<lparr>trafo := (trafo g)[id_powerline_backend := row\<lparr>trafo_in_service := False\<rparr>]\<rparr>)))"

definition apply_lor_bus :: "static_tables \<Rightarrow> int \<Rightarrow> nat \<Rightarrow> nat \<Rightarrow> ppnet stmt" where
  "apply_lor_bus t new_bus id_el_backend id_topo g =
     (case resolve t new_bus (init_bus_lor t) id_el_backend of
        Inl e \<Rightarrow> (Some e, g)
      | Inr new_bus_backend \<Rightarrow> change_bus_powerline_or id_el_backend new_bus_backend g)"

definition apply_lex_bus :: "static_tables \<Rightarrow> int \<Rightarrow> nat \<Rightarrow> nat \<Rightarrow> ppnet stmt" where
  "apply_lex_bus t new_bus id_el_backend id_topo g =
     (case resolve t new_bus (init_bus_lex t) id_el_backend of
        Inl e \<Rightarrow> (Some e, g)
      | Inr new_bus_backend \<Rightarrow> change_bus_powerline_ex id_el_backend new_bus_backend g)"

definition apply_trafo_hv :: "static_tables \<Rightarrow> int \<Rightarrow> nat \<Rightarrow> nat \<Rightarrow> ppnet stmt" where
  "apply_trafo_hv t new_bus id_el_backend id_topo g =
     (case resolve t new_bus (init_bus_lor t) id_el_backend of
        Inl e \<Rightarrow> (Some e, g)
      | Inr new_bus_backend \<Rightarrow> change_bus_trafo_hv id_topo new_bus_backend g)"

definition apply_trafo_lv :: "static_tables \<Rightarrow> int \<Rightarrow> nat \<Rightarrow> nat \<Rightarrow> ppnet stmt" where
  "apply_trafo_lv t new_bus id_el_backend id_topo g =
     (case resolve t new_bus (init_bus_lex t) id_el_backend of
        Inl e \<Rightarrow> (Some e, g)
      | Inr new_bus_backend \<Rightarrow> change_bus_trafo_lv id_topo new_bus_backend g)"

definition type_to_bus_set :: "static_tables \<Rightarrow> (int \<Rightarrow> nat \<Rightarrow> nat \<Rightarrow> ppnet stmt) list" where
  "type_to_bus_set t =
     [apply_load_bus t, apply_gen_bus t, apply_lor_bus t,
      apply_trafo_hv t, apply_lex_bus t, apply_trafo_lv t]"

text \<open>
  One turn of \<open>for id_el, new_bus in topo__\<close>.  A slot whose entry of
  \<open>_big_topo_to_backend\<close> was never filled gives \<open>type_obj = None\<close>, which is no list
  index.
\<close>

definition st_topo_change :: "static_tables \<Rightarrow> nat \<times> int \<Rightarrow> ppnet stmt" where
  "st_topo_change t ch g =
     (case ch of (id_el, new_bus) \<Rightarrow>
        (case nth_py (big_topo_to_backend t) id_el of
           Inl e \<Rightarrow> (Some e, g)
         | Inr None \<Rightarrow> (Some TypeError, g)
         | Inr (Some (id_el_backend, id_topo, type_obj)) \<Rightarrow>
             (case nth_py (type_to_bus_set t) type_obj of
                Inl e \<Rightarrow> (Some e, g)
              | Inr f \<Rightarrow> f new_bus id_el_backend id_topo g)))"

text \<open>
  The in-service flags of the buses, written by label.  A label that the table does
  not have enlarges the column the method holds and leaves the table as it is.
\<close>

definition set_bus_status :: "int \<Rightarrow> bool \<Rightarrow> bus_row list \<Rightarrow> bus_row list" where
  "set_bus_status l v rows = map (\<lambda>r. if bus_index r = l then r\<lparr>bus_in_service := v\<rparr> else r) rows"

definition st_active_bus :: "static_tables \<Rightarrow> backend_action \<Rightarrow> ppnet stmt" where
  "st_active_bus t a g =
     (None, g\<lparr>bus := fold (\<lambda>(i, (bus1_status, bus2_status)) rows.
                         set_bus_status (int i + int (priv_nb_bus_before t)) bus2_status
                           (set_bus_status (int i) bus1_status rows))
                     (enumerate 0 (active_bus a)) (bus g)\<rparr>)"

text \<open>
  \<open>apply_action\<close>: the injections and the shunts, then the topology changes in
  the order of the action, then the in-service flags of the buses.  It writes the net
  only.  The shunt block runs because \<open>shunts_data_available\<close> is true once the grid
  is loaded.
\<close>

definition injection_stmts :: "fpu \<Rightarrow> static_tables \<Rightarrow> backend_action \<Rightarrow> ppnet stmt list" where
  "injection_stmts fp t a =
     [st_act_prod_p a, st_act_prod_v fp t a, st_act_slack_v t a,
      st_act_load_p a, st_act_load_q a,
      st_act_shunt_p a, st_act_shunt_q a, st_act_shunt_bus t a]"

definition apply_action_stmts :: "fpu \<Rightarrow> static_tables \<Rightarrow> backend_action \<Rightarrow> ppnet stmt list" where
  "apply_action_stmts fp t a =
     injection_stmts fp t a
     @ map (st_topo_change t) (topo a)
     @ [st_active_bus t a]"

definition apply_action :: "fpu \<Rightarrow> backend_action option \<Rightarrow> backend stmt" where
  "apply_action fp backendAction b =
     (case backendAction of
        None \<Rightarrow> (None, b)
      | Some a \<Rightarrow>
          (case run_stmts (apply_action_stmts fp (tables b) a) (grid b) of
             (e, g) \<Rightarrow> (e, b\<lparr>grid := g\<rparr>)))"

text \<open>
  An action changes no injection when none of its seven masks has a flag set.
\<close>

definition no_injection_change :: "backend_action \<Rightarrow> bool" where
  "no_injection_change a =
     (\<not> list_ex (\<lambda>c. c) (changed (act_prod_p a)) \<and> \<not> list_ex (\<lambda>c. c) (changed (act_prod_v a))
      \<and> \<not> list_ex (\<lambda>c. c) (changed (act_load_p a)) \<and> \<not> list_ex (\<lambda>c. c) (changed (act_load_q a))
      \<and> \<not> list_ex (\<lambda>c. c) (changed (act_shunt_p a)) \<and> \<not> list_ex (\<lambda>c. c) (changed (act_shunt_q a))
      \<and> \<not> list_ex (\<lambda>c. c) (changed (act_shunt_bus a)))"

section \<open>Loading the grid\<close>

text \<open>
  The doubling of the bus table: a copy of the table whose labels are shifted by the
  number of rows and whose rows are out of service is concatenated after the
  table.
\<close>

definition add_topo :: "bus_row list \<Rightarrow> bus_row list" where
  "add_topo rows =
     map (\<lambda>r. r\<lparr>bus_in_service := False\<rparr>)
       (map (\<lambda>r. r\<lparr>bus_index := bus_index r + int (length rows)\<rparr>) rows)"

definition double_bus_table :: "bus_row list \<Rightarrow> bus_row list" where
  "double_bus_table rows = rows @ add_topo rows"

text \<open>
  \<open>sub_info[sub_id] += 1\<close> on a numpy array: a negative index counts from the end.
\<close>

definition count_at :: "int \<Rightarrow> nat list \<Rightarrow> pyexc + nat list" where
  "count_at sub_id info =
     (let n = int (length info); k = (if sub_id < 0 then sub_id + n else sub_id) in
      if 0 \<le> k \<and> k < n then Inr (info[nat k := info ! nat k + 1]) else Inl IndexError)"

definition fill_backend_table ::
  "(nat \<Rightarrow> nat \<times> nat \<times> nat) \<Rightarrow> nat list \<Rightarrow> (nat \<times> nat \<times> nat) option list
     \<Rightarrow> pyexc + (nat \<times> nat \<times> nat) option list" where
  "fill_backend_table entry pos tbl =
     for_each (\<lambda>i pos_big_topo tb. set_py tb pos_big_topo (Some (entry i))) pos 0 tbl"

text \<open>
  \<open>load_grid\<close> from the point where the net is read, the slack generator is settled
  and the first power flow has run.  The arguments are that net, the two indices the
  slack synthesis left (\<open>_iref_slack\<close>, \<open>_id_bus_added\<close>), and the four position
  tables that \<open>_compute_pos_big_topo\<close> of the parent class computes (the parent class
  is not part of these sources).  Names, thermal limits and the per-substation
  positions, which nothing below reads, are left out.
\<close>

definition load_grid ::
  "ppnet \<Rightarrow> nat option \<Rightarrow> nat option \<Rightarrow> nat list \<Rightarrow> nat list \<Rightarrow> nat list \<Rightarrow> nat list
     \<Rightarrow> pyexc + backend" where
  "load_grid g0 iref id_added load_pos gen_pos lor_pos lex_pos =
     (let nb = length (bus g0);
          nbp = length (line g0);
          n_line = length (line g0) + length (trafo g0);
          bus_lor = map from_bus (line g0) @ map hv_bus (trafo g0);
          bus_lex = map to_bus (line g0) @ map lv_bus (trafo g0);
          bus_gen = map gen_bus (gen g0);
          bus_load = map load_bus (load g0);
          bus_shunt = map shunt_bus (shunt g0);
          g1 = g0\<lparr>ext_grid := map (\<lambda>r. r\<lparr>ext_va_degree := Fin 0\<rparr>) (ext_grid g0)\<rparr>
      in
      ebind (for_each (\<lambda>i r info. ebind (count_at (from_bus r) info) (count_at (to_bus r)))
               (line g1) 0 (replicate nb 0)) (\<lambda>info1.
      ebind (for_each (\<lambda>i r info. ebind (count_at (hv_bus r) info) (count_at (lv_bus r)))
               (trafo g1) 0 info1) (\<lambda>info2.
      ebind (for_each (\<lambda>i r info. count_at (gen_bus r) info) (gen g1) 0 info2) (\<lambda>info3.
      ebind (for_each (\<lambda>i r info. count_at (load_bus r) info) (load g1) 0 info3) (\<lambda>sub_info.
      let g2 = g1\<lparr>bus := double_bus_table (bus g1)\<rparr>;
          vn = map (\<lambda>r. (bus_index r, vn_kv r)) (bus g2)
      in
      ebind (loc_py vn bus_load) (\<lambda>load_kv.
      ebind (loc_py vn bus_gen) (\<lambda>prod_kv.
      ebind (loc_py vn bus_lor) (\<lambda>lor_kv.
      ebind (loc_py vn bus_lex) (\<lambda>lex_kv.
      ebind (loc_py vn bus_shunt) (\<lambda>_.
      ebind (fill_backend_table (\<lambda>i. (i, i, 0)) load_pos
               (replicate (sum_list sub_info) None)) (\<lambda>tb1.
      ebind (fill_backend_table (\<lambda>i. (i, i, 1)) gen_pos tb1) (\<lambda>tb2.
      ebind (fill_backend_table (\<lambda>i. if i < nbp then (i, i, 2) else (i, i - nbp, 3))
               lor_pos tb2) (\<lambda>tb3.
      ebind (fill_backend_table (\<lambda>i. if i < nbp then (i, i, 4) else (i, i - nbp, 5))
               lex_pos tb3) (\<lambda>tb4.
      let b = \<lparr>grid = g2,
               tables = \<lparr>priv_nb_bus_before = nb, priv_nb_powerline = nbp,
                 number_true_line = nbp, dim_topo = sum_list sub_info,
                 n_load = length (load g0), iref_slack = iref, id_bus_added = id_added,
                 init_bus_load = bus_load, init_bus_gen = bus_gen,
                 init_bus_lor = bus_lor, init_bus_lex = bus_lex,
                 load_to_subid = bus_load, gen_to_subid = bus_gen,
                 line_or_to_subid = bus_lor, line_ex_to_subid = bus_lex,
                 shunt_to_subid = bus_shunt,
                 load_pos_topo_vect = load_pos, gen_pos_topo_vect = gen_pos,
                 line_or_pos_topo_vect = lor_pos, line_ex_pos_topo_vect = lex_pos,
                 big_topo_to_backend = tb4,
                 prod_pu_to_kv = prod_kv, load_pu_to_kv = load_kv,
                 lines_or_pu_to_kv = lor_kv, lines_ex_pu_to_kv = lex_kv\<rparr>,
               out = \<lparr>p_or = replicate n_line NaN, q_or = replicate n_line NaN,
                 v_or = replicate n_line NaN, a_or = replicate n_line NaN,
                 p_ex = replicate n_line NaN, q_ex = replicate n_line NaN,
                 v_ex = replicate n_line NaN, a_ex = replicate n_line NaN,
                 prod_p = replicate (length (gen g0)) NaN,
                 prod_q = replicate (length (gen g0)) NaN,
                 prod_v = replicate (length (gen g0)) NaN,
                 load_p = replicate (length (load g0)) NaN,
                 load_q = replicate (length (load g0)) NaN,
                 load_v = replicate (length (load g0)) NaN,
                 line_status = replicate n_line True\<rparr>,
               pf_init = ''results'', nb_bus_before = None, topo_vect = [],
               comp_time = Fin 0\<rparr>
      in ebind (get_topo_vect b) (\<lambda>tv. Inr (b\<lparr>topo_vect := tv\<rparr>))))))))))))))))"

section \<open>A small grid\<close>

text \<open>
  Three buses, a line from bus 0 to bus 1, a transformer from bus 1 to bus 2, a
  generator at bus 0, a load and a shunt at bus 1, and at bus 2 the slack generator
  that the loading added (row 1 of the generators, mirroring row 0 of the solver's
  internal generators) next to the external grid.  The slots of the topology vector
  are, by substation: line origin and generator 0; line extremity, transformer
  origin and load; transformer extremity and generator 1.
\<close>

definition ex_net :: ppnet where
  "ex_net =
     \<lparr>bus = [\<lparr>bus_index = 0, bus_name = ''a'', vn_kv = Fin 138, bus_type = ''b'', zone = ''z'',
               bus_in_service = True\<rparr>,
             \<lparr>bus_index = 1, bus_name = ''b'', vn_kv = Fin 138, bus_type = ''b'', zone = ''z'',
               bus_in_service = True\<rparr>,
             \<lparr>bus_index = 2, bus_name = ''c'', vn_kv = Fin 20, bus_type = ''b'', zone = ''z'',
               bus_in_service = True\<rparr>],
      load = [\<lparr>load_bus = 1, load_p_mw = Fin 10, load_q_mvar = Fin 2, load_in_service = True\<rparr>],
      gen = [\<lparr>gen_bus = 0, gen_p_mw = Fin 5, gen_vm_pu = Fin 1, gen_in_service = True\<rparr>,
             \<lparr>gen_bus = 2, gen_p_mw = Fin 7, gen_vm_pu = Fin 1, gen_in_service = True\<rparr>],
      line = [\<lparr>from_bus = 0, to_bus = 1, line_in_service = True\<rparr>],
      trafo = [\<lparr>hv_bus = 1, lv_bus = 2, trafo_in_service = True\<rparr>],
      shunt = [\<lparr>shunt_bus = 1, shunt_p_mw = Fin 0, shunt_q_mvar = Fin (- 1),
                 shunt_in_service = True\<rparr>],
      ext_grid = [\<lparr>ext_bus = 2, ext_vm_pu = Fin 1, ext_va_degree = Fin 0\<rparr>],
      res = \<lparr>res_gen = [], res_load = [], res_bus_vm_pu = [], res_line = [], res_trafo = [],
               res_shunt = [], ppc_et = None, ppc_gen = [], ppc_internal_gen = None,
               converged = False\<rparr>,
      solver_calls = []\<rparr>"

definition ex_backend :: "pyexc + backend" where
  "ex_backend = load_grid ex_net (Some 0) (Some 1) [4] [1, 6] [0, 3] [2, 5]"

text \<open>An arithmetic for the examples: exact on finite numbers, NaN otherwise.\<close>

fun ex_op :: "(real \<Rightarrow> real \<Rightarrow> real) \<Rightarrow> pyfloat \<Rightarrow> pyfloat \<Rightarrow> pyfloat" where
  "ex_op f (Fin x) (Fin y) = Fin (f x y)"
| "ex_op f _ _ = NaN"

definition ex_fpu :: fpu where
  "ex_fpu = \<lparr>fadd = ex_op (+), fmul = ex_op (*), fdiv = ex_op (/)\<rparr>"

text \<open>
  Two solvers for the examples.  The first converges: every bus is at 1 per unit,
  every generator produces its setpoint, the internal reference generator carries 3 MW
  and 1 MVAr.  The second raises \<open>LoadflowNotConverged\<close> and leaves the result
  tables as they were.
\<close>

definition ex_results :: "ppnet \<Rightarrow> pp_results" where
  "ex_results g =
     \<lparr>res_gen = map (\<lambda>r. \<lparr>res_gen_p_mw = gen_p_mw r, res_gen_q_mvar = Fin 0,
                            res_gen_va_degree = Fin 0, res_gen_vm_pu = gen_vm_pu r\<rparr>) (gen g),
      res_load = map (\<lambda>r. \<lparr>res_load_p_mw = load_p_mw r, res_load_q_mvar = load_q_mvar r\<rparr>)
                   (load g),
      res_bus_vm_pu = map (\<lambda>r. (bus_index r, Fin 1)) (bus g),
      res_line = map (\<lambda>r. \<lparr>p_from_mw = Fin 5, q_from_mvar = Fin 0, vm_from_pu = Fin 1,
                             i_from_ka = Fin 0, p_to_mw = Fin (- 5), q_to_mvar = Fin 0,
                             vm_to_pu = Fin 1, i_to_ka = Fin 0\<rparr>) (line g),
      res_trafo = map (\<lambda>r. \<lparr>p_hv_mw = Fin (- 5), q_hv_mvar = Fin 0, vm_hv_pu = Fin 1,
                              i_hv_ka = Fin 0, p_lv_mw = Fin 5, q_lv_mvar = Fin 0,
                              vm_lv_pu = Fin 1, i_lv_ka = Fin 0\<rparr>) (trafo g),
      res_shunt = map (\<lambda>r. \<lparr>res_shunt_p_mw = shunt_p_mw r, res_shunt_q_mvar = shunt_q_mvar r\<rparr>)
                    (shunt g),
      ppc_et = Some (Fin 0),
      ppc_gen = [[Fin 2, Fin 3, Fin 1], [Fin 0, Fin 5, Fin 0], [Fin 2, Fin 7, Fin 0]],
      ppc_internal_gen = Some [[Fin 2, Fin 3, Fin 1], [Fin 0, Fin 5, Fin 0], [Fin 2, Fin 7, Fin 0]],
      converged = True\<rparr>"

definition ex_solver :: solver where
  "ex_solver c g = (None, ex_results g)"

definition ex_diverging :: solver where
  "ex_diverging c g = (Some (LoadflowNotConverged ''Power Flow did not converge''), res g)"

definition ex_b :: backend where
  "ex_b = projr ex_backend"

text \<open>
  An action that changes nothing, for the small grid, and the actions of the
  examples: each changes one thing.
\<close>

definition ex_no_action :: backend_action where
  "ex_no_action =
     \<lparr>active_bus = [(True, False), (True, False), (True, False)],
      act_prod_p = \<lparr>changed = [False, False], vals = [Fin 0, Fin 0]\<rparr>,
      act_prod_v = \<lparr>changed = [False, False], vals = [Fin 0, Fin 0]\<rparr>,
      act_load_p = \<lparr>changed = [False], vals = [Fin 0]\<rparr>,
      act_load_q = \<lparr>changed = [False], vals = [Fin 0]\<rparr>,
      topo = [],
      act_shunt_p = \<lparr>changed = [False], vals = [Fin 0]\<rparr>,
      act_shunt_q = \<lparr>changed = [False], vals = [Fin 0]\<rparr>,
      act_shunt_bus = \<lparr>changed = [False], vals = [0]\<rparr>\<rparr>"

definition ex_shunt_off :: backend_action where
  "ex_shunt_off = ex_no_action\<lparr>act_shunt_bus := \<lparr>changed = [True], vals = [- 1]\<rparr>\<rparr>"

text \<open>The small grid after its first power flow, run with the converging solver.\<close>

definition ex_solved :: backend where
  "ex_solved = snd (runpf ex_fpu ex_solver False ex_b)"

text \<open>
  Two topology changes on the small grid: the load goes to the split bus of its
  substation, then generator 0 is given the selector 3.
\<close>

definition ex_bad_topo :: backend_action where
  "ex_bad_topo = ex_no_action\<lparr>topo := [(4, 2), (1, 3)]\<rparr>"


definition ex_load_off :: backend_action where
  "ex_load_off = ex_no_action\<lparr>topo := [(4, - 1)]\<rparr>"


text \<open>
  The small grid with its load out of service, and two more solvers: one leaves a
  NaN in the generators' results without raising, the other returns an infinite
  voltage at every bus.
\<close>

definition ex_isolated :: backend where
  "ex_isolated = snd (apply_action ex_fpu (Some ex_load_off) ex_b)"

definition ex_nan_solver :: solver where
  "ex_nan_solver c g =
     (None, (ex_results g)\<lparr>res_gen := map (\<lambda>r. r\<lparr>res_gen_vm_pu := NaN\<rparr>) (res_gen (ex_results g))\<rparr>)"

definition ex_inf_solver :: solver where
  "ex_inf_solver c g =
     (None, (ex_results g)\<lparr>res_bus_vm_pu := map (\<lambda>r. (bus_index r, PosInf)) (bus g)\<rparr>)"


text \<open>
  The small grid once its added slack generator (slot 6) sits on the split bus of
  substation 2 (bus 5), and the two actions that take the generator out and put it
  back on bus 1 of its substation.
\<close>

definition ex_gen_moved :: backend where
  "ex_gen_moved = snd (apply_action ex_fpu (Some (ex_no_action\<lparr>topo := [(6, 2)]\<rparr>)) ex_b)"

definition ex_gen_off :: backend_action where
  "ex_gen_off = ex_no_action\<lparr>topo := [(6, - 1)]\<rparr>"

definition ex_gen_on :: backend_action where
  "ex_gen_on = ex_no_action\<lparr>topo := [(6, 1)]\<rparr>"

text \<open>
  The small grid read from a file in which the load and the line are out of
  service.
\<close>

definition ex_net_off :: ppnet where
  "ex_net_off =
     ex_net\<lparr>load := [\<lparr>load_bus = 1, load_p_mw = Fin 10, load_q_mvar = Fin 2,
                       load_in_service = False\<rparr>],
            line := [\<lparr>from_bus = 0, to_bus = 1, line_in_service = False\<rparr>]\<rparr>"

definition ex_off_backend :: "pyexc + backend" where
  "ex_off_backend = load_grid ex_net_off (Some 0) (Some 1) [4] [1, 6] [0, 3] [2, 5]"

text \<open>
  The small grid read from a file that declares generator 1 as its slack generator,
  so that \<open>load_grid\<close> adds none and leaves both \<open>_iref_slack\<close> and \<open>_id_bus_added\<close>
  at \<open>None\<close>; that grid after its first power flow; and a solver that converges
  like the first one of the examples but leaves no generator table in its internal
  data.
\<close>

definition ex_plain_backend :: "pyexc + backend" where
  "ex_plain_backend = load_grid ex_net None None [4] [1, 6] [0, 3] [2, 5]"

definition ex_plain_solved :: backend where
  "ex_plain_solved = snd (runpf ex_fpu ex_solver False (projr ex_plain_backend))"

definition ex_bare_solver :: solver where
  "ex_bare_solver c g = (None, (ex_results g)\<lparr>ppc_internal_gen := None\<rparr>)"

definition ex_bare_solved :: backend where
  "ex_bare_solved = snd (runpf ex_fpu ex_bare_solver False ex_b)"

section \<open>Properties\<close>

text \<open>
  Claim C1.  For every home bus \<open>b\<close> the resolver returns \<open>b\<close> for selector 1,
  \<open>b\<close> plus the number of original buses for selector 2 and \<open>-1\<close> for selector
  \<open>-1\<close>; every other selector raises the invalid-selector error (a
  \<open>BackendError\<close>), so no other value is ever mapped to a bus.
\<close>

theorem resolver_cases:
  "pp_bus_from_grid2op_bus nb 1 b = Inr b
   \<and> pp_bus_from_grid2op_bus nb 2 b = Inr (b + int nb)
   \<and> pp_bus_from_grid2op_bus nb (-1) b = Inr (-1)
   \<and> (sel \<notin> {-1, 1, 2} \<longrightarrow>
        pp_bus_from_grid2op_bus nb sel b = Inl (BackendError ''grid2op bus must be -1, 1 or 2''))"
  by (simp add: pp_bus_from_grid2op_bus_def)

theorem resolver_cases_witness:
  "pp_bus_from_grid2op_bus 14 1 3 = Inr 3
   \<and> pp_bus_from_grid2op_bus 14 2 3 = Inr 17
   \<and> pp_bus_from_grid2op_bus 14 (-1) 3 = Inr (-1)
   \<and> (0::int) \<notin> {-1, 1, 2}
   \<and> pp_bus_from_grid2op_bus 14 0 3 = Inl (BackendError ''grid2op bus must be -1, 1 or 2'')"
  using resolver_cases [of 14 3 0] by simp


subsection \<open>The small grid loads\<close>

lemma ex_backend_loaded: "ex_backend = Inr ex_b"
proof -
  have h: "(case ex_backend of Inr b \<Rightarrow> True | Inl e \<Rightarrow> False)"
    by code_simp
  show ?thesis
  proof (cases ex_backend)
    case (Inl a)
    show ?thesis using h unfolding Inl by simp
  next
    case (Inr b)
    show ?thesis unfolding ex_b_def Inr by simp
  qed
qed

subsection \<open>Loading\<close>

lemma load_grid_net:
  assumes "load_grid g0 iref ida lp gp op xp = Inr b"
  shows "grid b = g0\<lparr>ext_grid := map (\<lambda>r. r\<lparr>ext_va_degree := Fin 0\<rparr>) (ext_grid g0),
                     bus := double_bus_table (bus g0)\<rparr>"
  using assms unfolding load_grid_def Let_def ebind_def
  by (auto split: sum.splits)

text \<open>
  Claim C8.  After loading, the bus table has twice the rows of the file's table.
  The first half is the file's table, unchanged.  Row \<open>n + i\<close> of the second half is
  row \<open>i\<close> of the file with its label raised by \<open>n\<close> (the length before the
  duplication) and its in-service flag false; every other attribute is that of row
  \<open>i\<close>.
\<close>

theorem load_grid_doubles_buses:
  assumes "load_grid g0 iref id_added load_pos gen_pos lor_pos lex_pos = Inr b"
  shows "length (bus (grid b)) = 2 * length (bus g0)
       \<and> take (length (bus g0)) (bus (grid b)) = bus g0
       \<and> (\<forall>i < length (bus g0).
            bus (grid b) ! (length (bus g0) + i)
              = (bus g0 ! i)\<lparr>bus_index := bus_index (bus g0 ! i) + int (length (bus g0)),
                              bus_in_service := False\<rparr>)"
  using load_grid_net [OF assms]
  by (simp add: double_bus_table_def add_topo_def nth_append)

theorem load_grid_doubles_buses_witness:
  "ex_backend = Inr ex_b
   \<and> length (bus (grid ex_b)) = 6
   \<and> take 3 (bus (grid ex_b)) = bus ex_net
   \<and> bus (grid ex_b) ! 5 = \<lparr>bus_index = 5, bus_name = ''c'', vn_kv = Fin 20, bus_type = ''b'',
                                zone = ''z'', bus_in_service = False\<rparr>"
proof -
  have n: "length (bus ex_net) = 3"
    by (simp add: ex_net_def)
  note h = load_grid_doubles_buses [OF ex_backend_loaded [unfolded ex_backend_def], unfolded n]
  from h [THEN conjunct2, THEN conjunct2, rule_format, of 2] have
    "bus (grid ex_b) ! 5 = \<lparr>bus_index = 5, bus_name = ''c'', vn_kv = Fin 20, bus_type = ''b'',
                                zone = ''z'', bus_in_service = False\<rparr>"
    by (simp add: ex_net_def)
  with h ex_backend_loaded show ?thesis by simp
qed

subsection \<open>The bus of a shunt\<close>

lemma shunt_info_bus_0_or_1:
  assumes "shunt_info fp b = Inr (p, q, v, sb)"
  shows "set sb \<subseteq> {0, 1}"
  using assms unfolding shunt_info_def Let_def ebind_def
  by (auto split: sum.splits)

text \<open>
  Claim C6 (what the code does at the failing input).  On the small grid, the shunt
  is taken out of service by an action with shunt selector \<open>-1\<close>, and the power flow
  is run.  \<open>shunt_info\<close> then reports bus 1 for the shunt, which is out of service.
  The claim asks for \<open>-1\<close>.
\<close>

theorem shunt_info_out_of_service_shunt:
  "(case apply_action ex_fpu (Some ex_shunt_off) ex_b of
      (None, b1) \<Rightarrow>
        (case runpf ex_fpu ex_solver False b1 of
           (Inr True, b2) \<Rightarrow>
              map shunt_in_service (shunt (grid b2)) = [False]
              \<and> shunt_info ex_fpu b2 = Inr ([Fin 0], [Fin (- 1)], [Fin 138], [1])
         | _ \<Rightarrow> False)
    | _ \<Rightarrow> False)"
  by code_simp

text \<open>
  A shunt whose bus is the split bus of its substation (bus 4 = 1 + 3 on the small
  grid) is reported on bus 0, not 2.
\<close>

lemma shunt_info_split_bus_shunt:
  "(case runpf ex_fpu ex_solver False
           (ex_b\<lparr>grid := (grid ex_b)\<lparr>shunt := [\<lparr>shunt_bus = 4, shunt_p_mw = Fin 0,
              shunt_q_mvar = Fin (- 1), shunt_in_service = True\<rparr>]\<rparr>\<rparr>) of
      (Inr True, b2) \<Rightarrow> shunt_info ex_fpu b2 = Inr ([Fin 0], [Fin (- 1)], [Fin 138], [0])
    | _ \<Rightarrow> False)"
  by code_simp

subsection \<open>The power of the added slack generator\<close>




subsection \<open>Blocks of statements\<close>

lemma run_stmts_append:
  "run_stmts (xs @ ys) s =
     (case run_stmts xs s of (Some e, s') \<Rightarrow> (Some e, s') | (None, s') \<Rightarrow> run_stmts ys s')"
  by (induction xs arbitrary: s) (auto split: prod.splits option.splits)

lemma run_stmts_append_ok:
  "run_stmts (xs @ ys) s = (None, s'') \<longleftrightarrow>
     (\<exists>s'. run_stmts xs s = (None, s') \<and> run_stmts ys s' = (None, s''))"
  by (auto simp: run_stmts_append split: prod.splits option.splits)


subsection \<open>A selector that is not -1, 1 or 2\<close>

lemma resolve_invalid:
  assumes "sel \<notin> {- 1, 1, 2}" and "i < length init"
  shows "resolve t sel init i = Inl (BackendError ''grid2op bus must be -1, 1 or 2'')"
  using assms by (simp add: resolve_def nth_py_def ebind_def pp_bus_from_grid2op_bus_def)

lemma st_topo_change_invalid:
  assumes sel: "sel \<notin> {- 1, 1, 2}"
    and slot: "slot < length (big_topo_to_backend t)"
      "big_topo_to_backend t ! slot = Some (i, j, ty)" "ty < 6"
    and init: "i < length ([init_bus_load t, init_bus_gen t, init_bus_lor t,
                             init_bus_lor t, init_bus_lex t, init_bus_lex t] ! ty)"
  shows "st_topo_change t (slot, sel) g = (Some (BackendError ''grid2op bus must be -1, 1 or 2''), g)"
proof -
  from \<open>ty < 6\<close> consider "ty = 0" | "ty = 1" | "ty = 2" | "ty = 3" | "ty = 4" | "ty = 5"
    by linarith
  then show ?thesis
  proof cases
    case 1
    with init have "i < length (init_bus_load t)" by simp
    from resolve_invalid [OF sel this] slot 1 show ?thesis
      by (simp add: st_topo_change_def nth_py_def type_to_bus_set_def apply_load_bus_def
          attempt_def ebind_def)
  next
    case 2
    with init have "i < length (init_bus_gen t)" by simp
    from resolve_invalid [OF sel this] slot 2 show ?thesis
      by (simp add: st_topo_change_def nth_py_def type_to_bus_set_def apply_gen_bus_def)
  next
    case 3
    with init have "i < length (init_bus_lor t)" by simp
    from resolve_invalid [OF sel this] slot 3 show ?thesis
      by (simp add: st_topo_change_def nth_py_def type_to_bus_set_def apply_lor_bus_def)
  next
    case 4
    with init have "i < length (init_bus_lor t)" by simp
    from resolve_invalid [OF sel this] slot 4 show ?thesis
      by (simp add: st_topo_change_def nth_py_def type_to_bus_set_def apply_trafo_hv_def)
  next
    case 5
    with init have "i < length (init_bus_lex t)" by simp
    from resolve_invalid [OF sel this] slot 5 show ?thesis
      by (simp add: st_topo_change_def nth_py_def type_to_bus_set_def apply_lex_bus_def)
  next
    case 6
    with init have "i < length (init_bus_lex t)" by simp
    from resolve_invalid [OF sel this] slot 6 show ?thesis
      by (simp add: st_topo_change_def nth_py_def type_to_bus_set_def apply_trafo_lv_def)
  qed
qed

text \<open>
  Claim C9.  Let the topology changes of an action hold a pair (slot, selector) whose
  selector is not -1, 1 or 2, for a slot that \<open>load_grid\<close> filled, and let the
  statements before that pair complete, leaving the net \<open>g1\<close>.  Then the turn of
  the loop for that pair raises the \<open>BackendError\<close> and leaves \<open>g1\<close> as it is: no
  row of the element is written.  \<open>apply_action\<close> raises the same error to its
  caller, and the net it leaves is \<open>g1\<close>.
\<close>

theorem invalid_selector_aborts:
  assumes sel: "sel \<notin> {- 1, 1, 2}"
    and slot: "slot < length (big_topo_to_backend (tables b))"
      "big_topo_to_backend (tables b) ! slot = Some (i, j, ty)" "ty < 6"
    and init: "i < length ([init_bus_load (tables b), init_bus_gen (tables b),
                             init_bus_lor (tables b), init_bus_lor (tables b),
                             init_bus_lex (tables b), init_bus_lex (tables b)] ! ty)"
    and topo: "topo a = pre @ (slot, sel) # post"
    and before: "run_stmts (injection_stmts fp (tables b) a
                             @ map (st_topo_change (tables b)) pre) (grid b) = (None, g1)"
  shows "st_topo_change (tables b) (slot, sel) g1
           = (Some (BackendError ''grid2op bus must be -1, 1 or 2''), g1)
       \<and> apply_action fp (Some a) b
           = (Some (BackendError ''grid2op bus must be -1, 1 or 2''), b\<lparr>grid := g1\<rparr>)"
proof -
  let ?t = "tables b"
  let ?err = "BackendError ''grid2op bus must be -1, 1 or 2''"
  have one: "st_topo_change ?t (slot, sel) g1 = (Some ?err, g1)"
    by (rule st_topo_change_invalid [OF sel slot init])
  have split: "apply_action_stmts fp ?t a =
      (injection_stmts fp ?t a @ map (st_topo_change ?t) pre)
      @ (st_topo_change ?t (slot, sel) # (map (st_topo_change ?t) post @ [st_active_bus ?t a]))"
    by (simp add: apply_action_stmts_def topo)
  have "run_stmts (apply_action_stmts fp ?t a) (grid b) = (Some ?err, g1)"
    unfolding split run_stmts_append [of "injection_stmts fp ?t a @ map (st_topo_change ?t) pre"]
    using before one by simp
  then have "apply_action fp (Some a) b = (Some ?err, b\<lparr>grid := g1\<rparr>)"
    by (simp add: apply_action_def)
  with one show ?thesis by simp
qed

theorem invalid_selector_aborts_witness:
  "(3::int) \<notin> {- 1, 1, 2}
   \<and> topo ex_bad_topo = [(4, 2), (1, 3)]
   \<and> big_topo_to_backend (tables ex_b) ! 1 = Some (0, 0, 1)
   \<and> (\<exists>g1. apply_action ex_fpu (Some ex_bad_topo) ex_b
              = (Some (BackendError ''grid2op bus must be -1, 1 or 2''), ex_b\<lparr>grid := g1\<rparr>)
          \<and> map load_bus (load g1) = [4]
          \<and> gen g1 = gen (grid ex_b))"
proof -
  define g1 where "g1 = snd (run_stmts (injection_stmts ex_fpu (tables ex_b) ex_bad_topo
                             @ map (st_topo_change (tables ex_b)) [(4, 2)]) (grid ex_b))"
  have sel: "(3::int) \<notin> {- 1, 1, 2}" by simp
  have slot: "1 < length (big_topo_to_backend (tables ex_b))"
    "big_topo_to_backend (tables ex_b) ! 1 = Some (0, 0, 1)" "(1::nat) < 6"
    by code_simp+
  have init: "0 < length ([init_bus_load (tables ex_b), init_bus_gen (tables ex_b),
                             init_bus_lor (tables ex_b), init_bus_lor (tables ex_b),
                             init_bus_lex (tables ex_b), init_bus_lex (tables ex_b)] ! 1)"
    by code_simp
  have topo: "topo ex_bad_topo = [(4, 2)] @ (1, 3) # []"
    by code_simp
  have "fst (run_stmts (injection_stmts ex_fpu (tables ex_b) ex_bad_topo
                             @ map (st_topo_change (tables ex_b)) [(4, 2)]) (grid ex_b)) = None"
    by code_simp
  then have before: "run_stmts (injection_stmts ex_fpu (tables ex_b) ex_bad_topo
                             @ map (st_topo_change (tables ex_b)) [(4, 2)]) (grid ex_b) = (None, g1)"
    by (simp add: g1_def prod_eq_iff)
  have l: "map load_bus (load g1) = [4]" unfolding g1_def by code_simp
  have g: "gen g1 = gen (grid ex_b)" unfolding g1_def by code_simp
  from invalid_selector_aborts [OF sel slot init topo before] l g sel slot topo
  show ?thesis by auto
qed

subsection \<open>Disconnecting and reconnecting a load or a generator\<close>








subsection \<open>A solve that fails\<close>

lemma outputs_unknown_reset: "outputs_unknown (reset_all_nan b)"
  by (simp add: outputs_unknown_def all_nan_def reset_all_nan_def nan_like_def list_all_iff)

lemma reset_all_nan_frame:
  "grid (reset_all_nan b) = grid b" "nb_bus_before (reset_all_nan b) = None"
  "tables (reset_all_nan b) = tables b" "topo_vect (reset_all_nan b) = topo_vect b"
  by (simp_all add: reset_all_nan_def)

lemma runpf_try_isolated:
  assumes "list_ex (\<lambda>r. \<not> load_in_service r) (load (grid b))
         \<or> list_ex (\<lambda>r. \<not> gen_in_service r) (gen (grid b))"
  shows "\<exists>msg. runpf_try fp solve is_dc b =
           (Some (LoadflowNotConverged msg),
            b\<lparr>pf_init := choose_pf_init (get_nb_active_bus b) (nb_bus_before b)\<rparr>)"
  using assms
  by (auto simp: runpf_try_def st_pf_init_def st_isolated_load_def st_isolated_gen_def)

text \<open>
  Claim C5.  When a load or a generator is out of service, \<open>runpf\<close> (for an
  alternating-current solve, and for a direct-current one as well) returns
  \<open>False\<close> and raises nothing.  The state it leaves is the state it found with the
  initialisation mode chosen, the published vectors reset and the warm-start memory
  cleared: the net is untouched, so the solver has received no call, and the outputs
  are unknown.
\<close>

theorem isolated_element_fails_without_solving:
  assumes "list_ex (\<lambda>r. \<not> load_in_service r) (load (grid b))
         \<or> list_ex (\<lambda>r. \<not> gen_in_service r) (gen (grid b))"
  shows "runpf fp solve is_dc b =
           (Inr False,
            reset_all_nan (b\<lparr>pf_init := choose_pf_init (get_nb_active_bus b) (nb_bus_before b)\<rparr>))
       \<and> grid (snd (runpf fp solve is_dc b)) = grid b
       \<and> solver_calls (grid (snd (runpf fp solve is_dc b))) = solver_calls (grid b)
       \<and> outputs_unknown (snd (runpf fp solve is_dc b))"
proof -
  from runpf_try_isolated [OF assms] obtain msg where
    "runpf_try fp solve is_dc b =
       (Some (LoadflowNotConverged msg),
        b\<lparr>pf_init := choose_pf_init (get_nb_active_bus b) (nb_bus_before b)\<rparr>)"
    by blast
  then have r: "runpf fp solve is_dc b =
       (Inr False,
        reset_all_nan (b\<lparr>pf_init := choose_pf_init (get_nb_active_bus b) (nb_bus_before b)\<rparr>))"
    by (simp add: runpf_def)
  show ?thesis
    unfolding r by (simp add: outputs_unknown_reset reset_all_nan_frame)
qed

theorem isolated_element_fails_without_solving_witness:
  "map load_in_service (load (grid ex_isolated)) = [False]
   \<and> fst (runpf ex_fpu ex_solver False ex_isolated) = Inr False
   \<and> solver_calls (grid (snd (runpf ex_fpu ex_solver False ex_isolated))) = []
   \<and> outputs_unknown (snd (runpf ex_fpu ex_solver False ex_isolated))"
proof -
  have l: "map load_in_service (load (grid ex_isolated)) = [False]"
    by code_simp
  then have h: "list_ex (\<lambda>r. \<not> load_in_service r) (load (grid ex_isolated))
         \<or> list_ex (\<lambda>r. \<not> gen_in_service r) (gen (grid ex_isolated))"
    by (cases "load (grid ex_isolated)") auto
  have c: "solver_calls (grid ex_isolated) = []"
    by code_simp
  from isolated_element_fails_without_solving [OF h, of ex_fpu ex_solver False] l c
  show ?thesis by (simp add: outputs_unknown_reset reset_all_nan_frame)
qed

lemma runpf_try_solver_raises:
  assumes "\<not> list_ex (\<lambda>r. \<not> load_in_service r) (load (grid b))"
    and "\<not> list_ex (\<lambda>r. \<not> gen_in_service r) (gen (grid b))"
    and "solve (if is_dc then Rundcpp
                else Runpp (choose_pf_init (get_nb_active_bus b) (nb_bus_before b))) (grid b)
           = (Some e, r)"
  shows "fst (runpf_try fp solve is_dc b) = Some e"
  using assms
  by (cases is_dc)
    (simp_all add: runpf_try_def st_pf_init_def st_isolated_load_def st_isolated_gen_def
      st_solve_def call_solver_def)

lemma runpf_try_res_gen_null:
  assumes "\<not> list_ex (\<lambda>r. \<not> load_in_service r) (load (grid b))"
    and "\<not> list_ex (\<lambda>r. \<not> gen_in_service r) (gen (grid b))"
    and "solve (if is_dc then Rundcpp
                else Runpp (choose_pf_init (get_nb_active_bus b) (nb_bus_before b))) (grid b)
           = (None, r)"
    and "list_ex (\<lambda>r. isnull (res_gen_p_mw r) \<or> isnull (res_gen_q_mvar r)
                      \<or> isnull (res_gen_va_degree r) \<or> isnull (res_gen_vm_pu r)) (res_gen r)"
  shows "fst (runpf_try fp solve is_dc b) = Some (LoadflowNotConverged ''Isolated gen'')"
  using assms
  by (cases is_dc)
    (simp_all add: runpf_try_def st_pf_init_def st_isolated_load_def st_isolated_gen_def
      st_solve_def call_solver_def st_comp_time_def st_res_gen_null_def split: option.splits)

text \<open>
  Claim C3.  When the body of the \<open>try\<close> raises \<open>LoadflowNotConverged\<close> (an
  isolated load or generator, a solver that did not converge, a NaN among the
  generators' results, a voltage of a load that is not finite), \<open>runpf\<close> returns
  \<open>False\<close>; the state it leaves is the state at the point of failure with every
  published vector reset, so the outputs are unknown, and the warm-start memory is
  empty.  Whatever happens, \<open>runpf\<close> never raises \<open>LoadflowNotConverged\<close>.
\<close>

theorem convergence_failure_is_absorbed:
  assumes "fst (runpf_try fp solve is_dc b) = Some (LoadflowNotConverged msg)"
  shows "fst (runpf fp solve is_dc b) = Inr False
       \<and> snd (runpf fp solve is_dc b) = reset_all_nan (snd (runpf_try fp solve is_dc b))
       \<and> outputs_unknown (snd (runpf fp solve is_dc b))
       \<and> nb_bus_before (snd (runpf fp solve is_dc b)) = None
       \<and> (\<forall>m. fst (runpf fp solve is_dc b) \<noteq> Inl (LoadflowNotConverged m))"
  using assms
  by (cases "runpf_try fp solve is_dc b")
    (simp add: runpf_def outputs_unknown_reset reset_all_nan_frame)

lemma runpf_never_raises_nonconvergence:
  "fst (runpf fp solve is_dc b) \<noteq> Inl (LoadflowNotConverged m)"
  by (cases "runpf_try fp solve is_dc b") (auto simp: runpf_def split: option.splits pyexc.splits)

text \<open>
  Three failures on the small grid: the solver raises; the solver leaves a NaN in the
  generators' results; the solver returns an infinite voltage, which is found after
  \<open>prod_p\<close>, \<open>prod_q\<close> and \<open>prod_v\<close> have been written.  Each time \<open>runpf\<close> returns
  \<open>False\<close> and the outputs are unknown.
\<close>

theorem convergence_failure_is_absorbed_witness:
  "fst (runpf_try ex_fpu ex_diverging False ex_b)
     = Some (LoadflowNotConverged ''Power Flow did not converge'')
   \<and> fst (runpf ex_fpu ex_diverging False ex_b) = Inr False
   \<and> outputs_unknown (snd (runpf ex_fpu ex_diverging False ex_b))
   \<and> nb_bus_before (snd (runpf ex_fpu ex_diverging False ex_b)) = None
   \<and> fst (runpf_try ex_fpu ex_inf_solver False ex_b) = Some (LoadflowNotConverged ''Isolated load'')
   \<and> prod_p (out (snd (runpf_try ex_fpu ex_inf_solver False ex_b))) = [Fin 5, Fin 10]
   \<and> fst (runpf ex_fpu ex_inf_solver False ex_b) = Inr False
   \<and> outputs_unknown (snd (runpf ex_fpu ex_inf_solver False ex_b))"
proof -
  have h1: "fst (runpf_try ex_fpu ex_diverging False ex_b)
     = Some (LoadflowNotConverged ''Power Flow did not converge'')"
    by code_simp
  have h2: "fst (runpf_try ex_fpu ex_inf_solver False ex_b)
     = Some (LoadflowNotConverged ''Isolated load'')"
    by code_simp
  have p: "prod_p (out (snd (runpf_try ex_fpu ex_inf_solver False ex_b))) = [Fin 5, Fin 10]"
    by code_simp
  from convergence_failure_is_absorbed [OF h1] convergence_failure_is_absorbed [OF h2] h1 h2 p
  show ?thesis by blast
qed

lemma nan_result_is_absorbed_example:
  "fst (runpf_try ex_fpu ex_nan_solver False ex_b) = Some (LoadflowNotConverged ''Isolated gen'')
   \<and> fst (runpf ex_fpu ex_nan_solver False ex_b) = Inr False
   \<and> out (snd (runpf ex_fpu ex_nan_solver False ex_b)) = out ex_b"
  by code_simp

subsection \<open>The warm start\<close>

lemma choose_pf_init_same_count: "choose_pf_init n (Some n) = ''results''"
  by (simp add: choose_pf_init_def)

lemma choose_pf_init_no_memory: "choose_pf_init n None = ''dc''"
  by (simp add: choose_pf_init_def)

lemma st_ppc_gen_frame:
  assumes "st_ppc_gen b = (None, b')"
  shows "nb_bus_before b' = nb_bus_before b"
  using assms by (auto simp: st_ppc_gen_def attempt_def ebind_def split: sum.splits)

lemma st_topo_vect_frame:
  assumes "st_topo_vect b = (None, b')"
  shows "nb_bus_before b' = nb_bus_before b"
  using assms by (auto simp: st_topo_vect_def attempt_def ebind_def split: sum.splits)

lemma runpf_try_tail:
  "runpf_try fp solve is_dc b =
     run_stmts
       (([st_pf_init (get_nb_active_bus b), st_isolated_load, st_isolated_gen,
          st_solve solve is_dc, st_comp_time fp, st_res_gen_null,
          st_prod_p fp, st_prod_q fp, st_prod_v fp, st_load_p fp, st_load_q fp, st_load_v fp]
         @ (if \<not> is_dc then [st_load_v_finite] else [st_dc_load_v, st_dc_fix_loads])
         @ [st_line_status, st_flows_or fp, st_flows_ex fp, st_voltages fp])
        @ [st_forget_nb_bus, st_ppc_gen, st_topo_vect]) b"
  by (simp add: runpf_try_def)

text \<open>
  Every call of \<open>runpf\<close> that returns, with \<open>True\<close> or with \<open>False\<close>, leaves the
  warm-start memory \<open>_nb_bus_before\<close> empty.
\<close>

lemma runpf_clears_memory:
  assumes "fst (runpf fp solve is_dc b) = Inr r"
  shows "nb_bus_before (snd (runpf fp solve is_dc b)) = None"
proof (cases "runpf_try fp solve is_dc b")
  case (Pair e b')
  show ?thesis
  proof (cases e)
    case None
    with Pair have "runpf_try fp solve is_dc b = (None, b')"
      by simp
    then obtain s1 where
      "run_stmts [st_forget_nb_bus, st_ppc_gen, st_topo_vect] s1 = (None, b')"
      unfolding runpf_try_tail run_stmts_append_ok by blast
    then obtain s2 s3 where
      "st_forget_nb_bus s1 = (None, s2)" "st_ppc_gen s2 = (None, s3)" "st_topo_vect s3 = (None, b')"
      by (auto split: prod.splits option.splits)
    with st_ppc_gen_frame st_topo_vect_frame have "nb_bus_before b' = None"
      by (auto simp: st_forget_nb_bus_def)
    with Pair None show ?thesis by (simp add: runpf_def)
  next
    case (Some x)
    with Pair assms show ?thesis
      by (cases x) (simp_all add: runpf_def reset_all_nan_frame)
  qed
qed

text \<open>
  Claim C4 (what the code does at the failing input).  The small grid is solved
  twice in a row, with nothing done in between.  Both solves succeed and the number
  of active buses is the same at the start of both, yet the memory is empty after
  the first and the solver is called with \<open>init="dc"\<close> both times: the second call
  does not reuse the results of the first.
\<close>

theorem second_solve_starts_cold:
  "fst (runpf ex_fpu ex_solver False ex_b) = Inr True
   \<and> get_nb_active_bus ex_solved = get_nb_active_bus ex_b
   \<and> nb_bus_before ex_solved = None
   \<and> fst (runpf ex_fpu ex_solver False ex_solved) = Inr True
   \<and> pf_init (snd (runpf ex_fpu ex_solver False ex_solved)) = ''dc''
   \<and> solver_calls (grid (snd (runpf ex_fpu ex_solver False ex_solved)))
       = [Runpp ''dc'', Runpp ''dc'']"
  by code_simp

subsection \<open>The decoding loops\<close>

lemma topo_inj_step:
  "topo_inj subs poss k bus_id r = Inr r1 \<longleftrightarrow>
     k < length subs \<and> k < length poss \<and> poss ! k < length r
     \<and> r1 = r[poss ! k := (if bus_id = subs ! k then 1 else 2)]"
  by (auto simp: topo_inj_def nth_py_def set_py_def ebind_def split: if_splits)

lemma for_each_topo_inj:
  assumes "for_each (topo_inj subs poss) buses k r = Inr r'"
  shows "length r' = length r
       \<and> (\<forall>p. p \<notin> (\<lambda>j. poss ! j) ` {k..<k + length buses} \<longrightarrow> r' ! p = r ! p)
       \<and> (inj_on (\<lambda>j. poss ! j) {k..<k + length buses} \<longrightarrow>
            (\<forall>i<length buses.
               r' ! (poss ! (k + i)) = (if buses ! i = subs ! (k + i) then 1 else 2)))"
  using assms
proof (induction buses arbitrary: k r)
  case Nil
  then show ?case by simp
next
  case (Cons bus_id buses)
  from Cons.prems obtain r1 where s: "topo_inj subs poss k bus_id r = Inr r1"
    and rest: "for_each (topo_inj subs poss) buses (Suc k) r1 = Inr r'"
    by (auto split: sum.splits)
  from s have k: "k < length subs" "k < length poss" "poss ! k < length r"
    and r1: "r1 = r[poss ! k := (if bus_id = subs ! k then 1 else 2)]"
    by (simp_all add: topo_inj_step)
  note ih = Cons.IH [OF rest]
  have range: "{k..<k + length (bus_id # buses)} = insert k {Suc k..<Suc k + length buses}"
    by auto
  have len: "length r' = length r" using ih r1 by simp
  have other: "r' ! p = r ! p" if "p \<notin> (\<lambda>j. poss ! j) ` {k..<k + length (bus_id # buses)}" for p
  proof -
    from that have "p \<noteq> poss ! k" and "p \<notin> (\<lambda>j. poss ! j) ` {Suc k..<Suc k + length buses}"
      unfolding range by auto
    with ih r1 show ?thesis by simp
  qed
  have written: "r' ! (poss ! (k + i)) = (if (bus_id # buses) ! i = subs ! (k + i) then 1 else 2)"
    if inj: "inj_on (\<lambda>j. poss ! j) {k..<k + length (bus_id # buses)}"
      and i: "i < length (bus_id # buses)" for i
  proof (cases i)
    case 0
    have "poss ! k \<notin> (\<lambda>j. poss ! j) ` {Suc k..<Suc k + length buses}"
    proof
      assume "poss ! k \<in> (\<lambda>j. poss ! j) ` {Suc k..<Suc k + length buses}"
      then obtain j where j: "j \<in> {Suc k..<Suc k + length buses}" "poss ! k = poss ! j"
        by auto
      with inj have "k = j" unfolding range by (auto simp: inj_on_def)
      with j show False by simp
    qed
    with ih have "r' ! (poss ! k) = r1 ! (poss ! k)" by simp
    with r1 k 0 show ?thesis by simp
  next
    case (Suc i')
    from inj have "inj_on (\<lambda>j. poss ! j) {Suc k..<Suc k + length buses}"
      unfolding range by (rule inj_on_subset) auto
    with ih Suc i show ?thesis by simp
  qed
  from len other written show ?case by blast
qed

lemma topo_branch_step:
  "topo_branch b ls k (bus_or_id, bus_ex_id) r = Inr r2 \<longleftrightarrow>
     k < length ls \<and> k < length (line_or_pos_topo_vect (tables b))
     \<and> k < length (line_ex_pos_topo_vect (tables b))
     \<and> line_or_pos_topo_vect (tables b) ! k < length r
     \<and> line_ex_pos_topo_vect (tables b) ! k < length r
     \<and> (ls ! k \<longrightarrow> k < length (line_or_to_subid (tables b))
                    \<and> k < length (line_ex_to_subid (tables b)))
     \<and> r2 = r[line_or_pos_topo_vect (tables b) ! k :=
                 (if \<not> ls ! k then - 1
                  else if bus_or_id = line_or_to_subid (tables b) ! k then 1 else 2),
               line_ex_pos_topo_vect (tables b) ! k :=
                 (if \<not> ls ! k then - 1
                  else if bus_ex_id = line_ex_to_subid (tables b) ! k then 1 else 2)]"
  by (auto simp: topo_branch_def nth_py_def set_py_def ebind_def split: if_splits)

lemma for_each_topo_branch:
  assumes "for_each (topo_branch b ls) rows k r = Inr r'"
  shows "length r' = length r
       \<and> (\<forall>p. p \<notin> (\<lambda>j. line_or_pos_topo_vect (tables b) ! j) ` {k..<k + length rows}
                   \<union> (\<lambda>j. line_ex_pos_topo_vect (tables b) ! j) ` {k..<k + length rows}
              \<longrightarrow> r' ! p = r ! p)
       \<and> (inj_on (\<lambda>j. line_or_pos_topo_vect (tables b) ! j) {k..<k + length rows}
          \<and> inj_on (\<lambda>j. line_ex_pos_topo_vect (tables b) ! j) {k..<k + length rows}
          \<and> (\<lambda>j. line_or_pos_topo_vect (tables b) ! j) ` {k..<k + length rows}
              \<inter> (\<lambda>j. line_ex_pos_topo_vect (tables b) ! j) ` {k..<k + length rows} = {}
          \<longrightarrow> (\<forall>i<length rows.
                 r' ! (line_or_pos_topo_vect (tables b) ! (k + i))
                   = (if \<not> ls ! (k + i) then - 1
                      else if fst (rows ! i) = line_or_to_subid (tables b) ! (k + i) then 1 else 2)
               \<and> r' ! (line_ex_pos_topo_vect (tables b) ! (k + i))
                   = (if \<not> ls ! (k + i) then - 1
                      else if snd (rows ! i) = line_ex_to_subid (tables b) ! (k + i) then 1 else 2)))"
  using assms
proof (induction rows arbitrary: k r)
  case Nil
  then show ?case by simp
next
  case (Cons row rows)
  let ?orp = "\<lambda>j. line_or_pos_topo_vect (tables b) ! j"
  let ?exp = "\<lambda>j. line_ex_pos_topo_vect (tables b) ! j"
  let ?vo = "\<lambda>j bus_id. if \<not> ls ! j then - 1
                 else if bus_id = line_or_to_subid (tables b) ! j then 1 else (2::int)"
  let ?ve = "\<lambda>j bus_id. if \<not> ls ! j then - 1
                 else if bus_id = line_ex_to_subid (tables b) ! j then 1 else (2::int)"
  let ?I = "{k..<k + length (row # rows)}"
  let ?J = "{Suc k..<Suc k + length rows}"
  obtain bo be where row: "row = (bo, be)" by (cases row)
  from Cons.prems obtain r2 where s: "topo_branch b ls k (bo, be) r = Inr r2"
    and rest: "for_each (topo_branch b ls) rows (Suc k) r2 = Inr r'"
    by (auto simp: row split: sum.splits)
  from s have k: "?orp k < length r" "?exp k < length r"
    and r2: "r2 = r[?orp k := ?vo k bo, ?exp k := ?ve k be]"
    by (simp_all add: topo_branch_step)
  note ih = Cons.IH [OF rest]
  have range: "?I = insert k ?J"
    by auto
  have len: "length r' = length r" using ih r2 by simp
  have other: "r' ! p = r ! p" if "p \<notin> ?orp ` ?I \<union> ?exp ` ?I" for p
  proof -
    from that have "p \<noteq> ?orp k" "p \<noteq> ?exp k" and "p \<notin> ?orp ` ?J \<union> ?exp ` ?J"
      unfolding range by auto
    with ih r2 show ?thesis by simp
  qed
  have written: "r' ! ?orp (k + i) = ?vo (k + i) (fst ((row # rows) ! i))
               \<and> r' ! ?exp (k + i) = ?ve (k + i) (snd ((row # rows) ! i))"
    if inj: "inj_on ?orp ?I" "inj_on ?exp ?I" and dis: "?orp ` ?I \<inter> ?exp ` ?I = {}"
      and i: "i < length (row # rows)" for i
  proof (cases i)
    case 0
    have ne: "?orp k \<noteq> ?exp k"
      using dis unfolding range by auto
    have "?orp k \<notin> ?orp ` ?J"
    proof
      assume "?orp k \<in> ?orp ` ?J"
      then obtain j where j: "j \<in> ?J" "?orp k = ?orp j" by auto
      with inj(1) have "k = j" unfolding range by (auto simp: inj_on_def)
      with j show False by simp
    qed
    moreover have "?orp k \<notin> ?exp ` ?J"
      using dis unfolding range by auto
    ultimately have o: "r' ! ?orp k = r2 ! ?orp k" using ih by simp
    have "?exp k \<notin> ?exp ` ?J"
    proof
      assume "?exp k \<in> ?exp ` ?J"
      then obtain j where j: "j \<in> ?J" "?exp k = ?exp j" by auto
      with inj(2) have "k = j" unfolding range by (auto simp: inj_on_def)
      with j show False by simp
    qed
    moreover have "?exp k \<notin> ?orp ` ?J"
      using dis unfolding range by auto
    ultimately have e: "r' ! ?exp k = r2 ! ?exp k" using ih by simp
    from o e r2 k ne 0 row show ?thesis by simp
  next
    case (Suc i')
    from inj have "inj_on ?orp ?J" "inj_on ?exp ?J"
      unfolding range by (auto intro: inj_on_subset)
    moreover from dis have "?orp ` ?J \<inter> ?exp ` ?J = {}"
      unfolding range by auto
    ultimately show ?thesis using ih Suc i by simp
  qed
  from len other written show ?case by blast
qed






subsection \<open>What the solve leaves alone\<close>












subsection \<open>The topology vector after a solve\<close>





lemma get_topo_vect_length:
  assumes "get_topo_vect b = Inr v"
  shows "length v = dim_topo (tables b)"
proof -
  from assms obtain r1 r2 r3 where
    l1: "for_each (topo_branch b (line_status (out b)))
           (map (\<lambda>r. (from_bus r, to_bus r)) (line (grid b))) 0
           (replicate (dim_topo (tables b)) nan_as_int) = Inr r1"
    and l2: "for_each (topo_branch b (line_status (out b)))
           (map (\<lambda>r. (hv_bus r, lv_bus r)) (trafo (grid b))) (number_true_line (tables b)) r1
           = Inr r2"
    and l3: "for_each (topo_inj (gen_to_subid (tables b)) (gen_pos_topo_vect (tables b)))
           (map gen_bus (gen (grid b))) 0 r2 = Inr r3"
    and l4: "for_each (topo_inj (load_to_subid (tables b)) (load_pos_topo_vect (tables b)))
           (map load_bus (load (grid b))) 0 r3 = Inr v"
    by (auto simp: get_topo_vect_def get_line_status_def Let_def ebind_def split: sum.splits)
  from for_each_topo_branch [OF l1] for_each_topo_branch [OF l2]
    for_each_topo_inj [OF l3] for_each_topo_inj [OF l4]
  show ?thesis by simp
qed

text \<open>\<open>load_grid\<close> leaves the backend as the decoding needs it.\<close>

lemma load_grid_wellformed:
  assumes "load_grid g0 iref ida lp gp op xp = Inr b"
  shows "number_true_line (tables b) = length (line (grid b))
       \<and> length (topo_vect b) = dim_topo (tables b)"
  using assms unfolding load_grid_def Let_def ebind_def
  by (auto split: sum.splits dest!: get_topo_vect_length)

text \<open>
  The decoding on its own, outside a solve: on the small grid with its load out of
  service (bus \<open>-1\<close>), the slot of the load decodes to 2.
\<close>

lemma get_topo_vect_out_of_service_load:
  "map load_in_service (load (grid ex_isolated)) = [False]
   \<and> get_topo_vect ex_isolated = Inr [1, 1, 1, 1, 2, 1, 1]"
  by code_simp

end
